theory Spec2Isabelle
  imports Main "HOL-Library.Sublist" "HOL-Library.Char_ord" "HOL-Library.List_Lexorder"
begin

section \<open>Activity classifier (features/Card.tsx)\<close>

text \<open>
  \<^verbatim>\<open>ACTIVITY_INDICATORS\<close> has the four keys \<^verbatim>\<open>active\<close>, \<^verbatim>\<open>moderate\<close>,
  \<^verbatim>\<open>inactive\<close> and \<^verbatim>\<open>default\<close>; the label strings behind them
  (\<^verbatim>\<open>'Active ...'\<close>, \<^verbatim>\<open>'Moderate ...'\<close>, \<^verbatim>\<open>'Inactive ...'\<close>,
  \<^verbatim>\<open>'Unknown ...'\<close>) are pairwise different, so the key stands for the label.
\<close>

datatype ACTIVITY_INDICATORS = ind_active | ind_moderate | ind_inactive | ind_default

text \<open>
  \<^verbatim>\<open>new Date(ms)\<close> followed by \<^verbatim>\<open>getTime()\<close>: the time value when it lies in the
  range of \<^verbatim>\<open>Date\<close> (8.64e15 milliseconds either side of the epoch), \<^verbatim>\<open>NaN\<close>
  (here \<open>None\<close>) otherwise. Numbers are the integers among the JavaScript numbers:
  metric samples come from JSON and hold whole epoch seconds.
\<close>

definition Date_getTime :: "int \<Rightarrow> int option" where
  "Date_getTime ms = (if \<bar>ms\<bar> \<le> 8640000000000000 then Some ms else None)"

text \<open>
  Lines 52 to 54: \<^verbatim>\<open>Math.floor(diffMilliseconds / (1000 * 60 * 60 * 24))\<close>. Both
  instants are whole milliseconds in the range of \<^verbatim>\<open>Date\<close>. A quotient that is not
  whole lies at least 1/86400000 away from the next whole number, more than the rounding
  error of the floating-point division as long as the days stay below \<open>2\<^sup>2\<^sup>6\<close>; beyond
  that the days are nowhere near 90 or 180. So the comparisons below come out as on the
  integers.
\<close>

definition diffDays :: "int \<Rightarrow> int \<Rightarrow> int" where
  "diffDays lastPushDate today =
     (let diffMilliseconds = today - lastPushDate
      in diffMilliseconds div (1000 * 60 * 60 * 24))"

text \<open>
  \<^verbatim>\<open>getActivityIndicator(githubPushedAt: number | undefined)\<close>; \<open>today\<close> is the value of
  \<^verbatim>\<open>new Date().getTime()\<close> at the call. \<^verbatim>\<open>!githubPushedAt\<close> holds for
  \<^verbatim>\<open>undefined\<close> and for the number \<open>0\<close>.
\<close>

definition getActivityIndicator :: "int option \<Rightarrow> int \<Rightarrow> ACTIVITY_INDICATORS" where
  "getActivityIndicator githubPushedAt today =
     (case githubPushedAt of
        None \<Rightarrow> ind_default
      | Some t \<Rightarrow>
          if t = 0 then ind_default
          else (case Date_getTime (t * 1000) of
                  None \<Rightarrow> ind_default
                | Some lastPushDate \<Rightarrow>
                    if diffDays lastPushDate today \<le> 90 then ind_active
                    else if diffDays lastPushDate today \<le> 180 then ind_moderate
                    else ind_inactive))"

section \<open>JavaScript values\<close>

text \<open>
  A string is a list of characters, each standing for one UTF-16 code unit below 256.
  A plain object is the list of its own properties in the order in which
  \<^verbatim>\<open>Object.keys\<close> enumerates them: the keys that are array indices first, in ascending
  numeric order, then the other keys in the order of their creation. Behind every plain
  object stands \<^verbatim>\<open>Object.prototype\<close>: reading a key that the object does not own finds
  the member of that name there, and assigning to \<^verbatim>\<open>__proto__\<close> runs its setter.
\<close>

type_synonym 'v obj = "(string \<times> 'v) list"

definition is_digit :: "char \<Rightarrow> bool" where
  "is_digit c \<longleftrightarrow> CHR ''0'' \<le> c \<and> c \<le> CHR ''9''"

definition decimal_value :: "string \<Rightarrow> int" where
  "decimal_value s = foldl (\<lambda>n c. 10 * n + (of_char c - 48)) 0 s"

text \<open>
  An array index is the canonical decimal numeral of an integer from \<open>0\<close> to
  \<open>2\<^sup>3\<^sup>2 - 2\<close>: digits only, without a leading zero.
\<close>

definition array_index :: "string \<Rightarrow> int option" where
  "array_index s =
     (if s \<noteq> [] \<and> list_all is_digit s \<and> (s = ''0'' \<or> hd s \<noteq> CHR ''0'')
         \<and> decimal_value s < 2 ^ 32 - 1
      then Some (decimal_value s) else None)"

definition key_before :: "string \<Rightarrow> string \<Rightarrow> bool" where
  "key_before k k' =
     (case array_index k of
        None \<Rightarrow> False
      | Some i \<Rightarrow> (case array_index k' of None \<Rightarrow> True | Some j \<Rightarrow> i < j))"

definition Object_keys :: "'v obj \<Rightarrow> string list" where
  "Object_keys ob = map fst ob"

text \<open>
  The own property of a key: \<^verbatim>\<open>ob[k]\<close> for a key that \<^verbatim>\<open>Object.keys(ob)\<close> lists.
\<close>

definition obj_get :: "'v obj \<Rightarrow> string \<Rightarrow> 'v option" where
  "obj_get ob k = map_of ob k"

fun obj_update :: "'v obj \<Rightarrow> string \<Rightarrow> 'v \<Rightarrow> 'v obj" where
  "obj_update [] k v = []"
| "obj_update ((k', v') # ob) k v =
     (if k' = k then (k, v) # ob else (k', v') # obj_update ob k v)"

fun obj_insert :: "'v obj \<Rightarrow> string \<Rightarrow> 'v \<Rightarrow> 'v obj" where
  "obj_insert [] k v = [(k, v)]"
| "obj_insert ((k', v') # ob) k v =
     (if key_before k k' then (k, v) # (k', v') # ob else (k', v') # obj_insert ob k v)"

text \<open>
  \<^verbatim>\<open>{...ob, [k]: v}\<close>, the definition of an own property on a copy: an existing property
  keeps its place, a new one is created, whatever the name (a computed key
  \<^verbatim>\<open>__proto__\<close> too).
\<close>

definition obj_set :: "'v obj \<Rightarrow> string \<Rightarrow> 'v \<Rightarrow> 'v obj" where
  "obj_set ob k v =
     (if k \<in> set (Object_keys ob) then obj_update ob k v else obj_insert ob k v)"

text \<open>
  The names of the members of \<^verbatim>\<open>Object.prototype\<close>: eleven functions and the accessor
  \<^verbatim>\<open>__proto__\<close>, whose getter gives the prototype object. All of them are truthy and
  none is \<^verbatim>\<open>null\<close> or \<^verbatim>\<open>undefined\<close>.
\<close>

definition Object_prototype :: "string list" where
  "Object_prototype =
     [''constructor'', ''__defineGetter__'', ''__defineSetter__'', ''hasOwnProperty'',
      ''__lookupGetter__'', ''__lookupSetter__'', ''isPrototypeOf'', ''propertyIsEnumerable'',
      ''toString'', ''valueOf'', ''__proto__'', ''toLocaleString'']"

text \<open>
  \<^verbatim>\<open>ob[k]\<close> for any key: the own value, else the inherited member of that name, else
  \<^verbatim>\<open>undefined\<close>.
\<close>

datatype 'v lookup = Own 'v | Inherited | Undefined

definition obj_read :: "'v obj \<Rightarrow> string \<Rightarrow> 'v lookup" where
  "obj_read ob k =
     (case obj_get ob k of
        Some v \<Rightarrow> Own v
      | None \<Rightarrow> if k \<in> set Object_prototype then Inherited else Undefined)"

text \<open>
  \<^verbatim>\<open>ob[k] = v\<close> for a primitive \<open>v\<close>: an own property is overwritten in its place; else
  the name \<^verbatim>\<open>__proto__\<close> reaches the setter of \<^verbatim>\<open>Object.prototype\<close>, which ignores a
  primitive and creates nothing; any other name (the inherited functions are writable
  data properties) becomes a new own property.
\<close>

definition obj_assign :: "'v obj \<Rightarrow> string \<Rightarrow> 'v \<Rightarrow> 'v obj" where
  "obj_assign ob k v =
     (if k = ''__proto__'' \<and> k \<notin> set (Object_keys ob) then ob else obj_set ob k v)"

text \<open>
  \<^verbatim>\<open>Array.prototype.join\<close> turns each element into a string; for a non-negative
  integer that is its decimal numeral.
\<close>

definition digit_char :: "nat \<Rightarrow> char" where
  "digit_char d = char_of (d + 48)"

fun Number_toString :: "nat \<Rightarrow> string" where
  "Number_toString n =
     (if 10 \<le> n then Number_toString (n div 10) @ [digit_char (n mod 10)] else [digit_char n])"

fun join :: "nat list \<Rightarrow> string \<Rightarrow> string" where
  "join [] sep = []"
| "join [x] sep = Number_toString x"
| "join (x # y # ys) sep = Number_toString x @ sep @ join (y # ys) sep"

text \<open>
  \<^verbatim>\<open>String.prototype.toLowerCase\<close> on code units below 256: the letters A to Z and the
  capital letters of Latin-1 (0xC0 to 0xDE without the multiplication sign 0xD7) move up
  by 32.
\<close>

definition toLowerCase_char :: "char \<Rightarrow> char" where
  "toLowerCase_char c =
     (let n = (of_char c :: nat)
      in if (65 \<le> n \<and> n \<le> 90) \<or> (192 \<le> n \<and> n \<le> 222 \<and> n \<noteq> 215)
         then char_of (n + 32) else c)"

definition toLowerCase :: "string \<Rightarrow> string" where
  "toLowerCase s = map toLowerCase_char s"

text \<open>
  \<^verbatim>\<open>String.prototype.trim\<close>: white space and line terminators below 256 are TAB, LF, VT,
  FF, CR, SPACE and the no-break space.
\<close>

definition is_white_space :: "char \<Rightarrow> bool" where
  "is_white_space c \<longleftrightarrow> (of_char c :: nat) \<in> {9, 10, 11, 12, 13, 32, 160}"

definition trim :: "string \<Rightarrow> string" where
  "trim s = rev (dropWhile is_white_space (rev (dropWhile is_white_space s)))"

text \<open>\<^verbatim>\<open>s.includes(search)\<close>: \<open>search\<close> occurs in \<open>s\<close> at some position.\<close>

fun String_includes :: "string \<Rightarrow> string \<Rightarrow> bool" where
  "String_includes [] search = (search = [])"
| "String_includes (c # cs) search = (prefix search (c # cs) \<or> String_includes cs search)"

text \<open>
  \<^verbatim>\<open>xs.pop()\<close>: the last element (\<^verbatim>\<open>undefined\<close> on an empty array) and the array as it
  is left behind.
\<close>

definition Array_pop :: "'a list \<Rightarrow> 'a option \<times> 'a list" where
  "Array_pop xs = (if xs = [] then (None, []) else (Some (last xs), butlast xs))"

section \<open>Project records (types, as far as the features read them)\<close>

text \<open>
  The declaration of \<^verbatim>\<open>ProjectInfo\<close> (module \<^verbatim>\<open>types\<close>) is not among the sources; the
  record has the fields that the features read. \<^verbatim>\<open>name\<close> and \<^verbatim>\<open>description\<close> are
  read without a guard and are mandatory entries of a project file; the arrays, the
  readiness and the metrics are read through \<^verbatim>\<open>?.\<close> and may be \<^verbatim>\<open>undefined\<close>
  (\<open>None\<close>). A metric is a sequence of samples; \<^verbatim>\<open>value\<close> is \<open>sample_value\<close> here.
\<close>

record Readiness =
  business :: "string option"
  technology :: "string option"

record Sample =
  date :: string
  sample_value :: int

record Metrics =
  github_pushed_at :: "Sample list option"

record ProjectInfo =
  name :: string
  description :: string
  category :: "string list option"
  layer :: "string list option"
  target_audience :: "string list option"
  ecosystem :: "string list option"
  readiness :: "Readiness option"
  metrics :: "Metrics option"

text \<open>
  \<^verbatim>\<open>card.metrics?.github_pushed_at?.pop()?.value\<close> (Card.tsx, line 111): the number
  handed to the indicator, and the card as the call leaves it.
\<close>

definition Card_githubPushedAt :: "ProjectInfo \<Rightarrow> int option \<times> ProjectInfo" where
  "Card_githubPushedAt crd =
     (case metrics crd of
        None \<Rightarrow> (None, crd)
      | Some m \<Rightarrow>
          (case github_pushed_at m of
             None \<Rightarrow> (None, crd)
           | Some samples \<Rightarrow>
               (map_option sample_value (fst (Array_pop samples)),
                crd\<lparr>metrics := Some (m\<lparr>github_pushed_at := Some (snd (Array_pop samples))\<rparr>)\<rparr>)))"

text \<open>Rendering the activity indicator of a card: the label shown and the card afterwards.\<close>

definition Card_ActivityIndicator :: "ProjectInfo \<Rightarrow> int \<Rightarrow> ACTIVITY_INDICATORS \<times> ProjectInfo" where
  "Card_ActivityIndicator crd today =
     (getActivityIndicator (fst (Card_githubPushedAt crd)) today, snd (Card_githubPushedAt crd))"

section \<open>Filter state and toggle (shared by both variants of EcosystemMap)\<close>

text \<open>
  \<^verbatim>\<open>IFilters\<close> has four keys, each holding an object from facet value to flag. The
  variant of features/EcosystemMap.tsx has the keys of \<open>TCategory\<close>; the later variant,
  with the status facet, the counts and the search box (its text follows the two versions
  of the chip block in features/ChipFilterBlock.tsx, from line 85 on), has those of
  \<open>TCategory_status\<close>. The state records hold what the \<^verbatim>\<open>React.useState\<close> hooks of the
  component hold, theme and sort order apart: the sort order is never set.
\<close>

datatype TCategory = Key_category | Key_layer | Key_target_audience | Key_ecosystem

datatype TCategory_status = SKey_category | SKey_status | SKey_target_audience | SKey_ecosystem

type_synonym 'k IFilters = "'k \<Rightarrow> bool obj"

type_synonym IColorMap = "string obj"

definition allowedEcosystems :: "string set" where
  "allowedEcosystems =
     {''Acala Network'', ''Aleph Zero'', ''Astar Network'', ''Kusama'', ''Moonbeam'', ''Polkadot''}"

text \<open>
  A value of the count map: a number, or, once a count was started from an inherited
  member, a string: \<open>Count_text k n\<close> is the text that the member \<open>k\<close> of
  \<^verbatim>\<open>Object.prototype\<close> converts to, followed by \<open>n\<close> characters \<^verbatim>\<open>1\<close>.
\<close>

datatype count = Count_number nat | Count_text string nat

record 'k State =
  ecosystemProjects :: "ProjectInfo list"
  data :: "ProjectInfo list"
  filters :: "'k IFilters"
  colorMap :: IColorMap

record State_status = "TCategory_status State" +
  query :: string
  counts :: "TCategory_status \<Rightarrow> count obj"

text \<open>
  \<^verbatim>\<open>!filters[type][key]\<close>: the negation of an own flag, \<^verbatim>\<open>false\<close> for an inherited
  member (a function or an object, truthy), \<^verbatim>\<open>true\<close> for \<^verbatim>\<open>undefined\<close>.
\<close>

definition not_value :: "bool lookup \<Rightarrow> bool" where
  "not_value x = (case x of Own b \<Rightarrow> \<not> b | Inherited \<Rightarrow> False | Undefined \<Rightarrow> True)"

text \<open>
  \<^verbatim>\<open>{...filters, [type]: {...filters[type], [key]: !filters[type][key]}}\<close>.
\<close>

definition toggleFilterByCategory :: "'k IFilters \<Rightarrow> 'k \<Rightarrow> string \<Rightarrow> 'k IFilters" where
  "toggleFilterByCategory fs type key =
     fs(type := obj_set (fs type) key (not_value (obj_read (fs type) key)))"

text \<open>\<^verbatim>\<open>Object.keys(fs).filter((k) => fs[k])\<close>.\<close>

definition selected :: "bool obj \<Rightarrow> string list" where
  "selected fs = filter (\<lambda>k. obj_get fs k = Some True) (Object_keys fs)"

text \<open>
  \<^verbatim>\<open>arr?.find((d) => d === c)\<close> read as a condition: \<^verbatim>\<open>undefined\<close> and the empty string
  are falsy.
\<close>

definition find_truthy :: "string list option \<Rightarrow> string \<Rightarrow> bool" where
  "find_truthy arr c =
     (case arr of
        None \<Rightarrow> False
      | Some ds \<Rightarrow> (case find (\<lambda>d. d = c) ds of None \<Rightarrow> False | Some d \<Rightarrow> d \<noteq> []))"

text \<open>
  \<^verbatim>\<open>sortProjects\<close>: the sort state is constant, column \<^verbatim>\<open>name\<close> ascending;
  \<^verbatim>\<open>Array.prototype.sort\<close> is stable and compares strings by code units.
\<close>

definition sortProjects :: "ProjectInfo list \<Rightarrow> ProjectInfo list" where
  "sortProjects projects = sort_key name projects"

section \<open>The query engine\<close>

text \<open>\<^verbatim>\<open>filterProjects\<close> of features/EcosystemMap.tsx (lines 58 to 77).\<close>

definition filterProjects :: "(TCategory, 'z) State_scheme \<Rightarrow> (TCategory, 'z) State_scheme" where
  "filterProjects st =
     st\<lparr>data :=
          filter
            (\<lambda>p. list_all (\<lambda>c. find_truthy (category p) c) (selected (filters st Key_category))
               \<and> list_all (\<lambda>c. find_truthy (layer p) c) (selected (filters st Key_layer))
               \<and> list_all (\<lambda>c. find_truthy (target_audience p) c)
                    (selected (filters st Key_target_audience))
               \<and> list_all (\<lambda>c. find_truthy (ecosystem p) c) (selected (filters st Key_ecosystem)))
            (ecosystemProjects st)\<rparr>"

text \<open>\<^verbatim>\<open>filterProjects\<close> of the variant with status and search.\<close>

definition filterProjects_status :: "State_status \<Rightarrow> State_status" where
  "filterProjects_status st =
     (let search = toLowerCase (trim (query st))
      in st\<lparr>data :=
          filter
            (\<lambda>p. list_all (\<lambda>c. find_truthy (category p) c) (selected (filters st SKey_category))
               \<and> list_all (\<lambda>c. Option.bind (readiness p) technology = Some c)
                    (selected (filters st SKey_status))
               \<and> list_all (\<lambda>c. find_truthy (target_audience p) c)
                    (selected (filters st SKey_target_audience))
               \<and> list_all (\<lambda>c. find_truthy (ecosystem p) c) (selected (filters st SKey_ecosystem))
               \<and> (search = []
                    \<or> String_includes (toLowerCase (name p)) search
                    \<or> String_includes (toLowerCase (description p)) search))
            (ecosystemProjects st)\<rparr>)"

text \<open>
  A click on a chip: \<^verbatim>\<open>toggleFilter[type](key)\<close> sets the filters, and the effect on
  \<^verbatim>\<open>[filters, ecosystemProjects]\<close> recomputes the visible projects.
\<close>

definition toggleFilter :: "(TCategory, 'z) State_scheme \<Rightarrow> TCategory \<Rightarrow> string
    \<Rightarrow> (TCategory, 'z) State_scheme" where
  "toggleFilter st type key =
     filterProjects (st\<lparr>filters := toggleFilterByCategory (filters st) type key\<rparr>)"

definition toggleFilter_status :: "State_status \<Rightarrow> TCategory_status \<Rightarrow> string \<Rightarrow> State_status" where
  "toggleFilter_status st type key =
     filterProjects_status (st\<lparr>filters := toggleFilterByCategory (filters st) type key\<rparr>)"

text \<open>Typing into the search box: \<^verbatim>\<open>setQuery\<close>, then the effect on \<^verbatim>\<open>[..., query]\<close>.\<close>

definition setQuery :: "State_status \<Rightarrow> string \<Rightarrow> State_status" where
  "setQuery st q = filterProjects_status (st\<lparr>query := q\<rparr>)"

section \<open>Loading the dataset: facets, counts and colors\<close>

text \<open>\<^verbatim>\<open>arr?.forEach((l) => { if (l) { body } })\<close>.\<close>

definition forEach_truthy :: "string list option \<Rightarrow> (string \<Rightarrow> 's \<Rightarrow> 's) \<Rightarrow> 's \<Rightarrow> 's" where
  "forEach_truthy arr body s =
     (case arr of
        None \<Rightarrow> s
      | Some ls \<Rightarrow> fold (\<lambda>l s'. if l \<noteq> [] then body l s' else s') ls s)"

text \<open>\<^verbatim>\<open>f[type][l] = false\<close>.\<close>

definition set_facet :: "'k \<Rightarrow> string \<Rightarrow> 'k IFilters \<Rightarrow> 'k IFilters" where
  "set_facet type l f = f(type := obj_assign (f type) l False)"

text \<open>
  \<^verbatim>\<open>(x ?? 0) + 1\<close> for \<open>x\<close> read at the key \<open>l\<close>: a number grows by one, a string
  gets the character \<^verbatim>\<open>1\<close> appended, an inherited member is converted to its text
  first, and \<^verbatim>\<open>undefined\<close> counts as \<open>0\<close>.
\<close>

definition plus_one :: "count lookup \<Rightarrow> string \<Rightarrow> count" where
  "plus_one x l =
     (case x of
        Own (Count_number n) \<Rightarrow> Count_number (n + 1)
      | Own (Count_text k n) \<Rightarrow> Count_text k (n + 1)
      | Inherited \<Rightarrow> Count_text l 1
      | Undefined \<Rightarrow> Count_number 1)"

text \<open>\<^verbatim>\<open>countMap[type][l] = (countMap[type][l] ?? 0) + 1\<close>.\<close>

definition count_facet :: "'k \<Rightarrow> string \<Rightarrow> ('k \<Rightarrow> count obj) \<Rightarrow> ('k \<Rightarrow> count obj)" where
  "count_facet type l countMap =
     countMap(type := obj_assign (countMap type) l (plus_one (obj_read (countMap type) l) l))"

definition add_facet :: "'k \<Rightarrow> string \<Rightarrow> 'k IFilters \<times> ('k \<Rightarrow> count obj)
    \<Rightarrow> 'k IFilters \<times> ('k \<Rightarrow> count obj)" where
  "add_facet type l s = (set_facet type l (fst s), count_facet type l (snd s))"

text \<open>The body of \<^verbatim>\<open>d.forEach\<close> in features/EcosystemMap.tsx (lines 105 to 130).\<close>

definition load_record :: "ProjectInfo \<Rightarrow> TCategory IFilters \<Rightarrow> TCategory IFilters" where
  "load_record c f =
     forEach_truthy (ecosystem c)
       (\<lambda>l f'. if l \<in> allowedEcosystems then set_facet Key_ecosystem l f' else f')
       (forEach_truthy (target_audience c) (set_facet Key_target_audience)
          (forEach_truthy (category c) (set_facet Key_category)
             (forEach_truthy (layer c) (set_facet Key_layer) f)))"

definition load_filters :: "ProjectInfo list \<Rightarrow> TCategory IFilters" where
  "load_filters d = fold load_record d (\<lambda>_. [])"

text \<open>The body of \<^verbatim>\<open>d.forEach\<close> in the variant with status and counts.\<close>

definition load_record_status :: "ProjectInfo
    \<Rightarrow> TCategory_status IFilters \<times> (TCategory_status \<Rightarrow> count obj)
    \<Rightarrow> TCategory_status IFilters \<times> (TCategory_status \<Rightarrow> count obj)" where
  "load_record_status c s =
     forEach_truthy (ecosystem c)
       (\<lambda>l s'. if l \<in> allowedEcosystems then add_facet SKey_ecosystem l s' else s')
       (forEach_truthy (target_audience c) (add_facet SKey_target_audience)
          ((case Option.bind (readiness c) technology of
              None \<Rightarrow> (\<lambda>s'. s')
            | Some t \<Rightarrow> (\<lambda>s'. if t \<noteq> [] then add_facet SKey_status t s' else s'))
             (forEach_truthy (category c) (add_facet SKey_category) s)))"

definition load_facets_status :: "ProjectInfo list
    \<Rightarrow> TCategory_status IFilters \<times> (TCategory_status \<Rightarrow> count obj)" where
  "load_facets_status d = fold load_record_status d (\<lambda>_. [], \<lambda>_. [])"

text \<open>
  \<^verbatim>\<open>(colors[idx % colors.length] ?? [33, 150, 243]).join(",")\<close>; the palette \<open>colors\<close> of
  utils/helper is a parameter. On an empty palette the index is \<^verbatim>\<open>NaN\<close> and the
  fallback triple is taken.
\<close>

definition color_at :: "nat list list \<Rightarrow> nat \<Rightarrow> string" where
  "color_at colors idx =
     join (if colors = [] then [33, 150, 243] else colors ! (idx mod length colors)) '',''"

text \<open>\<^verbatim>\<open>keys.forEach((k, idx) => { c[k] = ... })\<close> on an empty object \<open>c\<close>.\<close>

definition assign_colors :: "nat list list \<Rightarrow> string list \<Rightarrow> IColorMap" where
  "assign_colors colors ks =
     fold (\<lambda>ik c. obj_assign c (snd ik) (color_at colors (fst ik))) (enumerate 0 ks) []"

definition color_traversal :: "TCategory IFilters \<Rightarrow> string list" where
  "color_traversal f =
     Object_keys (f Key_category) @ Object_keys (f Key_layer)
       @ Object_keys (f Key_target_audience) @ Object_keys (f Key_ecosystem)"

definition color_traversal_status :: "TCategory_status IFilters \<Rightarrow> string list" where
  "color_traversal_status f =
     Object_keys (f SKey_category) @ Object_keys (f SKey_status)
       @ Object_keys (f SKey_target_audience) @ Object_keys (f SKey_ecosystem)"

text \<open>
  The load effect, once \<^verbatim>\<open>projects.json\<close> has been fetched and parsed into \<open>d\<close>: the
  filters, the color map and the sorted projects are set, and the effect on
  \<^verbatim>\<open>[filters, ecosystemProjects]\<close> recomputes the visible projects.
\<close>

definition load :: "nat list list \<Rightarrow> ProjectInfo list \<Rightarrow> (TCategory, 'z) State_scheme
    \<Rightarrow> (TCategory, 'z) State_scheme" where
  "load colors d st =
     filterProjects
       (st\<lparr>filters := load_filters d,
           colorMap := assign_colors colors (color_traversal (load_filters d)),
           ecosystemProjects := sortProjects d\<rparr>)"

definition load_status :: "nat list list \<Rightarrow> ProjectInfo list \<Rightarrow> State_status \<Rightarrow> State_status" where
  "load_status colors d st =
     filterProjects_status
       (st\<lparr>filters := fst (load_facets_status d),
           counts := snd (load_facets_status d),
           colorMap := assign_colors colors (color_traversal_status (fst (load_facets_status d))),
           ecosystemProjects := sortProjects d\<rparr>)"

section \<open>The facets in the words of the data model\<close>

text \<open>
  \<^verbatim>\<open>p[type]\<close>, the value list of a project in a dimension; in the variant with the
  status facet the single value \<^verbatim>\<open>p.readiness?.technology\<close> is the list of the status
  dimension.
\<close>

definition project_field :: "TCategory \<Rightarrow> ProjectInfo \<Rightarrow> string list option" where
  "project_field type p =
     (case type of
        Key_category \<Rightarrow> category p
      | Key_layer \<Rightarrow> layer p
      | Key_target_audience \<Rightarrow> target_audience p
      | Key_ecosystem \<Rightarrow> ecosystem p)"

definition project_field_status :: "TCategory_status \<Rightarrow> ProjectInfo \<Rightarrow> string list option" where
  "project_field_status type p =
     (case type of
        SKey_category \<Rightarrow> category p
      | SKey_status \<Rightarrow> map_option (\<lambda>t. [t]) (Option.bind (readiness p) technology)
      | SKey_target_audience \<Rightarrow> target_audience p
      | SKey_ecosystem \<Rightarrow> ecosystem p)"

text \<open>
  The values of an array for which the load effect runs its assignments: the non-empty
  ones, and for the ecosystem dimension (\<open>eco\<close>) only those on the allow-list.
\<close>

definition admitted :: "bool \<Rightarrow> string list option \<Rightarrow> string list" where
  "admitted eco arr =
     (case arr of
        None \<Rightarrow> []
      | Some ls \<Rightarrow> filter (\<lambda>l. l \<noteq> [] \<and> (eco \<longrightarrow> l \<in> allowedEcosystems)) ls)"

definition assigned_values :: "TCategory \<Rightarrow> ProjectInfo list \<Rightarrow> string list" where
  "assigned_values type d =
     concat (map (\<lambda>c. admitted (type = Key_ecosystem) (project_field type c)) d)"

definition assigned_values_status :: "TCategory_status \<Rightarrow> ProjectInfo list \<Rightarrow> string list" where
  "assigned_values_status type d =
     concat (map (\<lambda>c. admitted (type = SKey_ecosystem) (project_field_status type c)) d)"

text \<open>
  The facet values of a dimension, in the order of the records: the assigned values
  without \<^verbatim>\<open>__proto__\<close>, for which the assignment creates no key.
\<close>

definition facet_values :: "TCategory \<Rightarrow> ProjectInfo list \<Rightarrow> string list" where
  "facet_values type d = filter (\<lambda>l. l \<noteq> ''__proto__'') (assigned_values type d)"

definition facet_values_status :: "TCategory_status \<Rightarrow> ProjectInfo list \<Rightarrow> string list" where
  "facet_values_status type d =
     filter (\<lambda>l. l \<noteq> ''__proto__'') (assigned_values_status type d)"

text \<open>The distinct elements of a list, each at the place of its first occurrence.\<close>

definition first_occurrences :: "'a list \<Rightarrow> 'a list" where
  "first_occurrences xs = rev (remdups (rev xs))"

text \<open>
  The order in which \<^verbatim>\<open>Object.keys\<close> enumerates the keys that a sequence of
  assignments to an empty object creates: array indices in ascending numeric order, then
  the other keys in the order of their first assignment.
\<close>

definition index_value :: "string \<Rightarrow> int" where
  "index_value k = (case array_index k of None \<Rightarrow> 0 | Some i \<Rightarrow> i)"

definition property_order :: "string list \<Rightarrow> string list" where
  "property_order ks =
     sort_key index_value (filter (\<lambda>k. array_index k \<noteq> None) (first_occurrences ks))
       @ filter (\<lambda>k. array_index k = None) (first_occurrences ks)"

section \<open>Example data\<close>

text \<open>
  Two projects after the scenario of the specification, a palette of two colors, and the
  initial state of the component (\<^verbatim>\<open>React.useState\<close>).
\<close>

definition example_acala :: ProjectInfo where
  "example_acala =
     \<lparr>name = ''Acala'', description = ''DeFi hub of Polkadot'',
      category = Some [''DeFi''], layer = Some [''Layer-3''],
      target_audience = Some [''Dev teams'', ''Startup''],
      ecosystem = Some [''Polkadot'', ''Ethereum''],
      readiness = Some \<lparr>business = None, technology = Some ''Connected to Relay chain''\<rparr>,
      metrics = Some \<lparr>github_pushed_at =
                  Some [\<lparr>date = ''2024-01-01'', sample_value = 1704067200\<rparr>,
                        \<lparr>date = ''2024-02-01'', sample_value = 1706745600\<rparr>]\<rparr>\<rparr>"

definition example_moonbeam :: ProjectInfo where
  "example_moonbeam =
     \<lparr>name = ''Moonbeam'', description = ''Ethereum-compatible smart contracts'',
      category = Some [''EVM''], layer = Some [''Layer-1''],
      target_audience = None,
      ecosystem = Some [''Moonbeam''],
      readiness = Some \<lparr>business = None, technology = Some ''In production''\<rparr>,
      metrics = None\<rparr>"

text \<open>A project whose categories are names of members of \<^verbatim>\<open>Object.prototype\<close>.\<close>

definition example_odd :: ProjectInfo where
  "example_odd =
     \<lparr>name = ''Odd'', description = ''Categories named after inherited members'',
      category = Some [''__proto__'', ''constructor''], layer = None,
      target_audience = None, ecosystem = None, readiness = None, metrics = None\<rparr>"

definition example_colors :: "nat list list" where
  "example_colors = [[244, 67, 54], [33, 150, 243]]"

definition initial_state :: "TCategory State" where
  "initial_state = \<lparr>ecosystemProjects = [], data = [], filters = (\<lambda>_. []), colorMap = []\<rparr>"

definition initial_state_status :: State_status where
  "initial_state_status =
     \<lparr>ecosystemProjects = [], data = [], filters = (\<lambda>_. []), colorMap = [],
      query = [], counts = (\<lambda>_. [])\<rparr>"

section \<open>Evaluation and unfolding rules\<close>

lemmas example_defs = example_acala_def example_moonbeam_def example_odd_def example_colors_def
  initial_state_def
  initial_state_status_def

lemmas model_defs = load_def load_status_def load_filters_def load_facets_status_def load_record_def
  load_record_status_def forEach_truthy_def set_facet_def count_facet_def add_facet_def
  assign_colors_def color_traversal_def color_traversal_status_def color_at_def
  filterProjects_def filterProjects_status_def toggleFilter_def toggleFilter_status_def
  toggleFilterByCategory_def selected_def find_truthy_def sortProjects_def setQuery_def
  obj_set_def obj_get_def obj_read_def obj_assign_def not_value_def plus_one_def
  Object_prototype_def Object_keys_def key_before_def array_index_def is_digit_def
  decimal_value_def allowedEcosystems_def toLowerCase_def toLowerCase_char_def trim_def
  is_white_space_def

lemmas eval_simps = char_of_def digit_char_def mod_Suc bit_0

section \<open>Objects: lookup, keys and order\<close>


lemma keys_obj_update: "map fst (obj_update ob k v) = map fst ob"
  by (induction ob) auto

lemma set_keys_obj_insert: "set (map fst (obj_insert ob k v)) = insert k (set (map fst ob))"
proof (induction ob)
  case Nil
  then show ?case by simp
next
  case (Cons a ob)
  obtain k' v' where a: "a = (k', v')" by (cases a)
  show ?case
  proof (cases "key_before k k'")
    case True
    then show ?thesis by (simp add: a)
  next
    case False
    then have "set (map fst (obj_insert (a # ob) k v)) = insert k' (set (map fst (obj_insert ob k v)))"
      by (simp add: a)
    also have "\<dots> = insert k' (insert k (set (map fst ob)))"
      by (simp only: Cons.IH)
    finally show ?thesis by (auto simp: a)
  qed
qed

lemma set_Object_keys_obj_set:
  "set (Object_keys (obj_set ob k v)) = insert k (set (Object_keys ob))"
proof (cases "k \<in> set (map fst ob)")
  case True
  then show ?thesis
    by (simp only: obj_set_def Object_keys_def keys_obj_update if_True insert_absorb)
next
  case False
  then show ?thesis
    by (simp only: obj_set_def Object_keys_def set_keys_obj_insert if_False)
qed

lemma map_of_obj_update:
  "map_of (obj_update ob k v) k' = (if k' = k \<and> k \<in> set (map fst ob) then Some v else map_of ob k')"
  by (induction ob) (auto simp: rev_image_eqI)

lemma map_of_obj_insert:
  "k \<notin> set (map fst ob) \<Longrightarrow> map_of (obj_insert ob k v) k' = (if k' = k then Some v else map_of ob k')"
  by (induction ob) auto

lemma obj_get_obj_set:
  "obj_get (obj_set ob k v) k' = (if k' = k then Some v else obj_get ob k')"
  by (simp add: obj_get_def obj_set_def Object_keys_def map_of_obj_update map_of_obj_insert)

lemma obj_update_twice: "obj_update (obj_update ob k v) k v' = obj_update ob k v'"
  by (induction ob) auto

lemma obj_update_same: "map_of ob k = Some v \<Longrightarrow> obj_update ob k v = ob"
  by (induction ob) (auto split: if_splits)

lemma obj_insert_plain: "array_index k = None \<Longrightarrow> obj_insert ob k v = ob @ [(k, v)]"
  by (induction ob) (auto simp: key_before_def)

lemma obj_set_twice_present:
  assumes "k \<in> set (Object_keys ob)" and "obj_get ob k = Some b"
  shows "obj_set (obj_set ob k v) k b = ob"
  using assms
  by (simp add: obj_set_def Object_keys_def keys_obj_update obj_update_twice obj_update_same obj_get_def)

lemma key_has_value: "k \<in> set (Object_keys ob) \<Longrightarrow> \<exists>b. obj_get ob k = Some b"
  by (induction ob) (auto simp: Object_keys_def obj_get_def)

lemma obj_read_own: "obj_get ob k = Some b \<Longrightarrow> obj_read ob k = Own b"
  by (simp add: obj_read_def)

lemma obj_read_absent:
  assumes "k \<notin> set (Object_keys ob)"
  shows "obj_read ob k = (if k \<in> set Object_prototype then Inherited else Undefined)"
proof -
  have "map_of ob k = None"
    using assms by (simp add: Object_keys_def map_of_eq_None_iff)
  then show ?thesis
    by (simp add: obj_read_def obj_get_def)
qed

lemma toggle_twice:
  assumes "key \<in> set (Object_keys (fs type))"
  shows "toggleFilterByCategory (toggleFilterByCategory fs type key) type key = fs"
proof -
  obtain b where b: "obj_get (fs type) key = Some b"
    using key_has_value [OF assms] by blast
  have "obj_set (obj_set (fs type) key (\<not> b)) key b = fs type"
    using assms b by (rule obj_set_twice_present)
  then show ?thesis
    using b
    by (auto simp: toggleFilterByCategory_def obj_read_own obj_get_obj_set not_value_def
        fun_eq_iff)
qed

text \<open>
  A run of assignments on an object without an own \<^verbatim>\<open>__proto__\<close> is the run of
  definitions for the names other than \<^verbatim>\<open>__proto__\<close>.
\<close>

lemma fold_obj_assign:
  assumes "''__proto__'' \<notin> set (Object_keys ob)"
  shows "fold (\<lambda>l ob. obj_assign ob l (h ob l)) ls ob
           = fold (\<lambda>l ob. obj_set ob l (h ob l)) (filter (\<lambda>l. l \<noteq> ''__proto__'') ls) ob"
  using assms
proof (induction ls arbitrary: ob)
  case Nil
  then show ?case by simp
next
  case (Cons l ls)
  show ?case
  proof (cases "l = ''__proto__''")
    case True
    then have "obj_assign ob l (h ob l) = ob"
      using Cons.prems by (simp add: obj_assign_def)
    then show ?thesis
      using True Cons.IH [OF Cons.prems] by simp
  next
    case False
    then have step: "obj_assign ob l (h ob l) = obj_set ob l (h ob l)"
      by (simp add: obj_assign_def)
    have "''__proto__'' \<notin> set (Object_keys (obj_set ob l (h ob l)))"
      using False Cons.prems by (simp add: set_Object_keys_obj_set)
    then show ?thesis
      using False step Cons.IH [of "obj_set ob l (h ob l)"] by simp
  qed
qed

lemma set_selected_obj_set_True:
  "set (selected (obj_set ob k True)) = insert k (set (selected ob))"
  by (auto simp: selected_def obj_get_obj_set set_Object_keys_obj_set)

lemma set_selected_obj_set_False:
  "set (selected (obj_set ob k False)) = set (selected ob) - {k}"
  by (auto simp: selected_def obj_get_obj_set set_Object_keys_obj_set)

lemma find_truthy_iff:
  "find_truthy arr c \<longleftrightarrow> c \<noteq> [] \<and> (\<exists>ds. arr = Some ds \<and> c \<in> set ds)"
proof (cases arr)
  case None
  then show ?thesis by (simp add: find_truthy_def)
next
  case (Some ds)
  have "find (\<lambda>d. d = c) ds = (if c \<in> set ds then Some c else None)"
    by (induction ds) auto
  with Some show ?thesis by (simp add: find_truthy_def)
qed

lemma String_includes_iff_sublist: "String_includes s search \<longleftrightarrow> sublist search s"
  by (induction s) (auto simp: sublist_Cons_right)


section \<open>The load effect as folds over facet values\<close>

lemma forEach_truthy_fold:
  "forEach_truthy arr (\<lambda>l s. if P l then g l s else s) s
     = fold g (case arr of None \<Rightarrow> [] | Some ls \<Rightarrow> filter (\<lambda>l. l \<noteq> [] \<and> P l) ls) s"
proof (cases arr)
  case None
  then show ?thesis by (simp add: forEach_truthy_def)
next
  case (Some ls)
  have "fold (\<lambda>l s'. if l \<noteq> [] then (if P l then g l s' else s') else s') ls s
          = fold g (filter (\<lambda>l. l \<noteq> [] \<and> P l) ls) s"
    by (induction ls arbitrary: s) auto
  with Some show ?thesis by (simp add: forEach_truthy_def)
qed

lemma forEach_truthy_fold_all:
  "forEach_truthy arr g s = fold g (case arr of None \<Rightarrow> [] | Some ls \<Rightarrow> filter (\<lambda>l. l \<noteq> []) ls) s"
  using forEach_truthy_fold [of arr "\<lambda>_. True" g s] by (simp split: option.splits)

lemma fold_set_facet:
  "fold (set_facet T) ls f T' =
     (if T' = T then fold (\<lambda>l ob. obj_assign ob l False) ls (f T) else f T')"
  by (induction ls arbitrary: f) (auto simp: set_facet_def)

lemma fold_count_facet:
  "fold (count_facet T) ls cm T' =
     (if T' = T
      then fold (\<lambda>l ob. obj_assign ob l (plus_one (obj_read ob l) l)) ls (cm T)
      else cm T')"
  by (induction ls arbitrary: cm) (auto simp: count_facet_def)

lemma fold_add_facet:
  "fold (add_facet T) ls s = (fold (set_facet T) ls (fst s), fold (count_facet T) ls (snd s))"
  by (induction ls arbitrary: s) (auto simp: add_facet_def)

lemma load_record_dim:
  "load_record c f T
     = fold (\<lambda>l ob. obj_assign ob l False) (admitted (T = Key_ecosystem) (project_field T c)) (f T)"
  unfolding load_record_def forEach_truthy_fold forEach_truthy_fold_all
  by (cases T) (simp_all add: fold_set_facet admitted_def project_field_def split: option.splits)

lemma load_filters_dim:
  "fold load_record d f T = fold (\<lambda>l ob. obj_assign ob l False) (assigned_values T d) (f T)"
  by (induction d arbitrary: f) (simp_all add: assigned_values_def load_record_dim)


lemma load_record_status_folds:
  "load_record_status c s
     = fold (add_facet SKey_ecosystem) (admitted True (project_field_status SKey_ecosystem c))
         (fold (add_facet SKey_target_audience)
            (admitted False (project_field_status SKey_target_audience c))
            (fold (add_facet SKey_status) (admitted False (project_field_status SKey_status c))
               (fold (add_facet SKey_category)
                  (admitted False (project_field_status SKey_category c)) s)))"
proof -
  have status:
    "(case Option.bind (readiness c) technology of
        None \<Rightarrow> (\<lambda>s'. s')
      | Some t \<Rightarrow> (\<lambda>s'. if t \<noteq> [] then add_facet SKey_status t s' else s')) s'
       = fold (add_facet SKey_status) (admitted False (project_field_status SKey_status c)) s'"
    for s'
    by (simp add: admitted_def project_field_status_def split: option.splits)
  have arr: "forEach_truthy a g s' = fold g (admitted False a) s'"
    for a g and s' :: "TCategory_status IFilters \<times> (TCategory_status \<Rightarrow> count obj)"
    by (simp add: forEach_truthy_fold_all admitted_def split: option.splits)
  have eco: "forEach_truthy a (\<lambda>l s'. if l \<in> allowedEcosystems then g l s' else s') s'
               = fold g (admitted True a) s'"
    for a g and s' :: "TCategory_status IFilters \<times> (TCategory_status \<Rightarrow> count obj)"
    by (simp add: forEach_truthy_fold admitted_def split: option.splits)
  show ?thesis
    unfolding load_record_status_def status eco arr
    by (simp add: project_field_status_def)
qed

lemma fst_load_record_status:
  "fst (load_record_status c s) T
     = fold (\<lambda>l ob. obj_assign ob l False)
         (admitted (T = SKey_ecosystem) (project_field_status T c)) (fst s T)"
  unfolding load_record_status_folds fold_add_facet fst_conv snd_conv
  by (cases T) (simp_all add: fold_set_facet)

lemma snd_load_record_status:
  "snd (load_record_status c s) T
     = fold (\<lambda>l ob. obj_assign ob l (plus_one (obj_read ob l) l))
         (admitted (T = SKey_ecosystem) (project_field_status T c)) (snd s T)"
  unfolding load_record_status_folds fold_add_facet fst_conv snd_conv
  by (cases T) (simp_all add: fold_count_facet)

lemma fst_load_facets_dim:
  "fst (fold load_record_status d s) T
     = fold (\<lambda>l ob. obj_assign ob l False) (assigned_values_status T d) (fst s T)"
  by (induction d arbitrary: s) (simp_all add: assigned_values_status_def fst_load_record_status)

lemma snd_load_facets_dim:
  "snd (fold load_record_status d s) T
     = fold (\<lambda>l ob. obj_assign ob l (plus_one (obj_read ob l) l))
         (assigned_values_status T d) (snd s T)"
  by (induction d arbitrary: s) (simp_all add: assigned_values_status_def snd_load_record_status)

text \<open>The facets after a load, as runs of definitions over the facet values.\<close>

lemma load_filters_facets:
  "load_filters d T = fold (\<lambda>l ob. obj_set ob l False) (facet_values T d) []"
  using fold_obj_assign [of "[]" "\<lambda>_ _. False" "assigned_values T d"]
  by (simp add: load_filters_def load_filters_dim facet_values_def Object_keys_def)

lemma load_facets_status_facets:
  "fst (load_facets_status d) T
     = fold (\<lambda>l ob. obj_set ob l False) (facet_values_status T d) []"
  "snd (load_facets_status d) T
     = fold (\<lambda>l ob. obj_set ob l (plus_one (obj_read ob l) l)) (facet_values_status T d) []"
  using fold_obj_assign [of "[]" "\<lambda>_ _. False" "assigned_values_status T d"]
    fold_obj_assign [of "[]" "\<lambda>ob l. plus_one (obj_read ob l) l" "assigned_values_status T d"]
  by (simp_all add: load_facets_status_def fst_load_facets_dim snd_load_facets_dim
      facet_values_status_def Object_keys_def)

lemma set_keys_fold_obj_set:
  "set (Object_keys (fold (\<lambda>l ob. obj_set ob l (h ob l)) ls ob)) = set (Object_keys ob) \<union> set ls"
  by (induction ls arbitrary: ob) (auto simp: set_Object_keys_obj_set)

lemma first_occurrences_snoc:
  "first_occurrences (xs @ [x])
     = (if x \<in> set xs then first_occurrences xs else first_occurrences xs @ [x])"
  by (simp add: first_occurrences_def)

lemma enumerate_snoc: "enumerate n (xs @ [x]) = enumerate n xs @ [(n + length xs, x)]"
  by (simp add: enumerate_append_eq)

lemma assign_colors_snoc:
  "assign_colors colors (ks @ [k])
     = obj_assign (assign_colors colors ks) k (color_at colors (length ks))"
  by (simp add: assign_colors_def enumerate_snoc)

lemma set_keys_assign_colors:
  "''__proto__'' \<notin> set ks \<Longrightarrow> set (Object_keys (assign_colors colors ks)) = set ks"
proof (induction ks rule: rev_induct)
  case Nil
  then show ?case by (simp add: assign_colors_def Object_keys_def)
next
  case (snoc k ks)
  then show ?case
    by (auto simp: assign_colors_snoc obj_assign_def set_Object_keys_obj_set)
qed

lemma assign_colors_last_occurrence:
  assumes "i < length ks" and "\<forall>j. i < j \<and> j < length ks \<longrightarrow> ks ! j \<noteq> ks ! i"
    and "''__proto__'' \<notin> set ks"
  shows "obj_get (assign_colors colors ks) (ks ! i) = Some (color_at colors i)"
  using assms
proof (induction ks rule: rev_induct)
  case Nil
  then show ?case by simp
next
  case (snoc k ks)
  have k: "k \<noteq> ''__proto__''" and ks: "''__proto__'' \<notin> set ks"
    using snoc.prems(3) by auto
  have step: "assign_colors colors (ks @ [k])
                = obj_set (assign_colors colors ks) k (color_at colors (length ks))"
    using k by (simp add: assign_colors_snoc obj_assign_def)
  show ?case
  proof (cases "i < length ks")
    case True
    have ne: "k \<noteq> ks ! i"
      using snoc.prems(2) True by (auto simp: nth_append dest: spec [of _ "length ks"])
    have later: "\<forall>j. i < j \<and> j < length ks \<longrightarrow> ks ! j \<noteq> ks ! i"
    proof (intro allI impI)
      fix j assume j: "i < j \<and> j < length ks"
      then have "(ks @ [k]) ! j \<noteq> (ks @ [k]) ! i"
        using snoc.prems(2) by simp
      with j True show "ks ! j \<noteq> ks ! i" by (simp add: nth_append)
    qed
    have "obj_get (assign_colors colors ks) (ks ! i) = Some (color_at colors i)"
      using snoc.IH [OF True later ks] .
    with True ne show ?thesis
      by (simp add: step obj_get_obj_set nth_append)
  next
    case False
    with snoc.prems(1) have "i = length ks" by simp
    then show ?thesis by (simp add: step obj_get_obj_set)
  qed
qed

section \<open>The query engine as a predicate\<close>

lemma all_TCategory:
  "(\<forall>T. P T) \<longleftrightarrow> P Key_category \<and> P Key_layer \<and> P Key_target_audience \<and> P Key_ecosystem"
  by (metis TCategory.exhaust)

lemma in_filterProjects:
  "p \<in> set (data (filterProjects st)) \<longleftrightarrow>
     p \<in> set (ecosystemProjects st)
     \<and> (\<forall>T. \<forall>c\<in>set (selected (filters st T)).
           c \<noteq> [] \<and> (\<exists>ds. project_field T p = Some ds \<and> c \<in> set ds))"
  by (simp add: filterProjects_def list_all_iff find_truthy_iff all_TCategory project_field_def
      conj_ac)

lemma in_filterProjects_status:
  "p \<in> set (data (filterProjects_status st)) \<longleftrightarrow>
     p \<in> set (ecosystemProjects st)
     \<and> (\<forall>c\<in>set (selected (filters st SKey_category)).
           c \<noteq> [] \<and> (\<exists>ds. category p = Some ds \<and> c \<in> set ds))
     \<and> (\<forall>c\<in>set (selected (filters st SKey_status)).
           Option.bind (readiness p) technology = Some c)
     \<and> (\<forall>c\<in>set (selected (filters st SKey_target_audience)).
           c \<noteq> [] \<and> (\<exists>ds. target_audience p = Some ds \<and> c \<in> set ds))
     \<and> (\<forall>c\<in>set (selected (filters st SKey_ecosystem)).
           c \<noteq> [] \<and> (\<exists>ds. ecosystem p = Some ds \<and> c \<in> set ds))
     \<and> (toLowerCase (trim (query st)) = []
          \<or> sublist (toLowerCase (trim (query st))) (toLowerCase (name p))
          \<or> sublist (toLowerCase (trim (query st))) (toLowerCase (description p)))"
  by (simp add: filterProjects_status_def Let_def list_all_iff find_truthy_iff
      String_includes_iff_sublist conj_ac)

lemma toggleFilterByCategory_apply:
  "toggleFilterByCategory fs T v T' =
     (if T' = T then obj_set (fs T) v (not_value (obj_read (fs T) v)) else fs T')"
  by (simp add: toggleFilterByCategory_def)

lemma selected_toggle_grows:
  assumes "obj_get (fs T) v \<noteq> Some True"
  shows "set (selected (fs T')) \<subseteq> set (selected (toggleFilterByCategory fs T v T'))"
proof (cases "T' = T")
  case False
  then show ?thesis by (simp add: toggleFilterByCategory_apply)
next
  case True
  have "v \<notin> set (selected (fs T))"
    using assms by (simp add: selected_def)
  then show ?thesis
    using True
    by (cases "not_value (obj_read (fs T) v)")
      (auto simp: toggleFilterByCategory_apply set_selected_obj_set_True
        set_selected_obj_set_False)
qed

lemma toggleFilter_narrows:
  assumes "obj_get (filters st T) v \<noteq> Some True"
  shows "set (data (toggleFilter st T v)) \<subseteq> set (data (filterProjects st))"
proof
  fix p assume "p \<in> set (data (toggleFilter st T v))"
  then have p: "p \<in> set (ecosystemProjects st)"
    and sel: "\<forall>T'. \<forall>c\<in>set (selected (toggleFilterByCategory (filters st) T v T')).
                c \<noteq> [] \<and> (\<exists>ds. project_field T' p = Some ds \<and> c \<in> set ds)"
    by (simp_all add: toggleFilter_def in_filterProjects)
  from sel selected_toggle_grows [of "filters st" T v, OF assms]
  have "\<forall>T'. \<forall>c\<in>set (selected (filters st T')).
          c \<noteq> [] \<and> (\<exists>ds. project_field T' p = Some ds \<and> c \<in> set ds)"
    by blast
  with p show "p \<in> set (data (filterProjects st))"
    by (simp add: in_filterProjects)
qed




lemma toggleFilter_status_narrows:
  assumes "obj_get (filters sst TS) w \<noteq> Some True"
  shows "set (data (toggleFilter_status sst TS w)) \<subseteq> set (data (filterProjects_status sst))"
proof
  fix p assume "p \<in> set (data (toggleFilter_status sst TS w))"
  then have p: "p \<in> set (data (filterProjects_status
                  (sst\<lparr>filters := toggleFilterByCategory (filters sst) TS w\<rparr>)))"
    by (simp only: toggleFilter_status_def)
  note grows = selected_toggle_grows [of "filters sst" TS w, OF assms]
  note q = in_filterProjects_status
    [of p "sst\<lparr>filters := toggleFilterByCategory (filters sst) TS w\<rparr>", THEN iffD1, OF p]
  have store: "p \<in> set (ecosystemProjects sst)"
    using q [THEN conjunct1] by simp
  have cat: "\<forall>c\<in>set (selected (filters sst SKey_category)).
               c \<noteq> [] \<and> (\<exists>ds. category p = Some ds \<and> c \<in> set ds)"
    using q [THEN conjunct2, THEN conjunct1, simplified] grows [of SKey_category]
    by (meson subsetD)
  have status: "\<forall>c\<in>set (selected (filters sst SKey_status)).
               Option.bind (readiness p) technology = Some c"
    using q [THEN conjunct2, THEN conjunct2, THEN conjunct1, simplified] grows [of SKey_status]
    by (meson subsetD)
  have aud: "\<forall>c\<in>set (selected (filters sst SKey_target_audience)).
               c \<noteq> [] \<and> (\<exists>ds. target_audience p = Some ds \<and> c \<in> set ds)"
    using q [THEN conjunct2, THEN conjunct2, THEN conjunct2, THEN conjunct1, simplified]
      grows [of SKey_target_audience]
    by (meson subsetD)
  have eco: "\<forall>c\<in>set (selected (filters sst SKey_ecosystem)).
               c \<noteq> [] \<and> (\<exists>ds. ecosystem p = Some ds \<and> c \<in> set ds)"
    using q [THEN conjunct2, THEN conjunct2, THEN conjunct2, THEN conjunct2, THEN conjunct1,
        simplified]
      grows [of SKey_ecosystem]
    by (meson subsetD)
  have free_text: "toLowerCase (trim (query sst)) = []
          \<or> sublist (toLowerCase (trim (query sst))) (toLowerCase (name p))
          \<or> sublist (toLowerCase (trim (query sst))) (toLowerCase (description p))"
    using q [THEN conjunct2, THEN conjunct2, THEN conjunct2, THEN conjunct2, THEN conjunct2]
    by simp
  show "p \<in> set (data (filterProjects_status sst))"
    unfolding in_filterProjects_status
    using store cat status aud eco free_text by (intro conjI)
qed

section \<open>Properties of the activity classifier\<close>

text \<open>
  Claim C3, as stated, fails at the timestamp \<open>0\<close>: 200 days after the epoch the elapsed
  days are 200, more than 180, and the classifier does not answer \<open>inactive\<close>.
\<close>

theorem C3_zero_timestamp_counterexample:
  "diffDays (0 * 1000) 17280000000 = 200 \<and>
   getActivityIndicator (Some 0) 17280000000 \<noteq> ind_inactive"
  by (simp add: diffDays_def getActivityIndicator_def)

text \<open>
  Claim C3, amended: for every last-pushed timestamp \<open>t\<close> (epoch seconds) other than \<open>0\<close>
  whose instant lies in the range of Date, and every evaluation instant, the classifier
  floor-divides the elapsed milliseconds into whole days and answers \<open>active\<close> iff
  days \<open>\<le> 90\<close>, \<open>moderate\<close> iff \<open>90 < days \<le> 180\<close>, \<open>inactive\<close> iff days \<open>> 180\<close>; a missing
  timestamp, the timestamp \<open>0\<close> and a timestamp outside the range of Date give
  \<open>unknown\<close>. The function is total: it never throws.
\<close>

theorem C3_activity_classifier:
  assumes "t \<noteq> 0" and "\<bar>t * 1000\<bar> \<le> 8640000000000000"
  shows "(getActivityIndicator (Some t) today = ind_active
            \<longleftrightarrow> diffDays (t * 1000) today \<le> 90)
       \<and> (getActivityIndicator (Some t) today = ind_moderate
            \<longleftrightarrow> 90 < diffDays (t * 1000) today \<and> diffDays (t * 1000) today \<le> 180)
       \<and> (getActivityIndicator (Some t) today = ind_inactive
            \<longleftrightarrow> 180 < diffDays (t * 1000) today)
       \<and> diffDays (t * 1000) today = (today - t * 1000) div 86400000
       \<and> getActivityIndicator None today = ind_default
       \<and> getActivityIndicator (Some 0) today = ind_default
       \<and> (8640000000000000 < \<bar>u * 1000\<bar> \<longrightarrow> getActivityIndicator (Some u) today = ind_default)"
  using assms
  by (auto simp: getActivityIndicator_def Date_getTime_def diffDays_def)

text \<open>
  The boundaries at a timestamp of 1700000000 seconds: exactly 90 days later is
  \<open>active\<close>, one millisecond short of 91 days still is, 91 days is \<open>moderate\<close>, so is
  180 days, and 181 days is \<open>inactive\<close>.
\<close>

theorem C3_activity_classifier_witness:
  "(1700000000::int) \<noteq> 0 \<and> \<bar>(1700000000::int) * 1000\<bar> \<le> 8640000000000000
   \<and> getActivityIndicator (Some 1700000000) (1700000000 * 1000 + 90 * 86400000) = ind_active
   \<and> getActivityIndicator (Some 1700000000) (1700000000 * 1000 + 91 * 86400000 - 1) = ind_active
   \<and> getActivityIndicator (Some 1700000000) (1700000000 * 1000 + 91 * 86400000) = ind_moderate
   \<and> getActivityIndicator (Some 1700000000) (1700000000 * 1000 + 180 * 86400000) = ind_moderate
   \<and> getActivityIndicator (Some 1700000000) (1700000000 * 1000 + 181 * 86400000) = ind_inactive
   \<and> 8640000000000000 < \<bar>(8640000000001::int) * 1000\<bar>
   \<and> getActivityIndicator (Some 8640000000001) (1700000000 * 1000) = ind_default"
proof -
  have nz: "(1700000000::int) \<noteq> 0" by simp
  have rg: "\<bar>(1700000000::int) * 1000\<bar> \<le> 8640000000000000" by simp
  note c = C3_activity_classifier [OF nz rg, where u = 8640000000001]
  show ?thesis
    using c [of "1700000000 * 1000 + 90 * 86400000"]
      c [of "1700000000 * 1000 + 91 * 86400000 - 1"]
      c [of "1700000000 * 1000 + 91 * 86400000"]
      c [of "1700000000 * 1000 + 180 * 86400000"]
      c [of "1700000000 * 1000 + 181 * 86400000"]
      c [of "1700000000 * 1000"]
    by (simp add: diffDays_def)
qed

text \<open>
  Claim C10: a most recent sample whose value is exactly \<open>0\<close> is a valid instant (the
  epoch itself), yet the classifier answers \<open>unknown\<close> at every evaluation instant,
  because \<^verbatim>\<open>!githubPushedAt\<close> is true of the number \<open>0\<close>; from 181 days after the epoch on,
  the elapsed days exceed 180, where any other timestamp is \<open>inactive\<close>.
\<close>

theorem C10_epoch_is_unknown:
  "Date_getTime (0 * 1000) = Some 0
   \<and> getActivityIndicator (Some 0) today = ind_default
   \<and> getActivityIndicator (Some 0) today \<noteq> ind_inactive
   \<and> 180 < diffDays (0 * 1000) (181 * 86400000)"
  by (simp add: getActivityIndicator_def Date_getTime_def diffDays_def)

section \<open>Properties of the query engine\<close>

text \<open>
  Claim C1, as stated, fails: with the categories DeFi and EVM both selected, the project
  Acala, whose categories are just DeFi, has a value in common with the selection and yet
  is not shown; selecting EVM after DeFi narrowed the result from Acala to nothing.
\<close>

theorem C1_or_within_dimension_counterexample:
  "category example_acala = Some [''DeFi'']
   \<and> selected (filters (toggleFilter (toggleFilter
          (load example_colors [example_acala, example_moonbeam] initial_state)
          Key_category ''DeFi'') Key_category ''EVM'') Key_category) = [''DeFi'', ''EVM'']
   \<and> data (toggleFilter (load example_colors [example_acala, example_moonbeam] initial_state)
          Key_category ''DeFi'') = [example_acala]
   \<and> data (toggleFilter (toggleFilter
          (load example_colors [example_acala, example_moonbeam] initial_state)
          Key_category ''DeFi'') Key_category ''EVM'') = []"
  by (simp add: example_defs model_defs eval_simps)

text \<open>
  Claim C1, amended: a project passes a dimension iff every selected value of the
  dimension is a non-empty member of the project's value list for it (all selected values
  are required; for the status dimension, every selected value equals the project's one
  status), and the visible projects are the stored ones that pass all dimensions (and, in
  the variant with search, the free-text condition). A dimension with no selected value
  imposes no constraint, and selecting one more value of a dimension can only narrow the
  visible set.
\<close>

theorem C1_every_selected_value:
  "(p \<in> set (data (filterProjects st)) \<longleftrightarrow>
      p \<in> set (ecosystemProjects st)
      \<and> (\<forall>T. \<forall>c\<in>set (selected (filters st T)).
            c \<noteq> [] \<and> (\<exists>ds. project_field T p = Some ds \<and> c \<in> set ds)))
   \<and> (obj_get (filters st T) v \<noteq> Some True \<longrightarrow>
        set (data (toggleFilter st T v)) \<subseteq> set (data (filterProjects st)))
   \<and> (p \<in> set (data (filterProjects_status sst)) \<longleftrightarrow>
        p \<in> set (ecosystemProjects sst)
        \<and> (\<forall>c\<in>set (selected (filters sst SKey_category)).
              c \<noteq> [] \<and> (\<exists>ds. category p = Some ds \<and> c \<in> set ds))
        \<and> (\<forall>c\<in>set (selected (filters sst SKey_status)).
              Option.bind (readiness p) technology = Some c)
        \<and> (\<forall>c\<in>set (selected (filters sst SKey_target_audience)).
              c \<noteq> [] \<and> (\<exists>ds. target_audience p = Some ds \<and> c \<in> set ds))
        \<and> (\<forall>c\<in>set (selected (filters sst SKey_ecosystem)).
              c \<noteq> [] \<and> (\<exists>ds. ecosystem p = Some ds \<and> c \<in> set ds))
        \<and> (toLowerCase (trim (query sst)) = []
             \<or> sublist (toLowerCase (trim (query sst))) (toLowerCase (name p))
             \<or> sublist (toLowerCase (trim (query sst))) (toLowerCase (description p))))
   \<and> (obj_get (filters sst TS) w \<noteq> Some True \<longrightarrow>
        set (data (toggleFilter_status sst TS w)) \<subseteq> set (data (filterProjects_status sst)))"
proof (intro conjI)
  show "obj_get (filters st T) v \<noteq> Some True \<longrightarrow>
          set (data (toggleFilter st T v)) \<subseteq> set (data (filterProjects st))"
    using toggleFilter_narrows [of st T v] by (rule impI)
  show "obj_get (filters sst TS) w \<noteq> Some True \<longrightarrow>
          set (data (toggleFilter_status sst TS w)) \<subseteq> set (data (filterProjects_status sst))"
    using toggleFilter_status_narrows [of sst TS w] by (rule impI)
qed (rule in_filterProjects in_filterProjects_status)+

text \<open>The example dataset, loaded, with one chip clicked.\<close>

lemma example_toggled:
  "filters (toggleFilter (load example_colors [example_acala, example_moonbeam] initial_state)
      Key_category ''DeFi'')
     = (\<lambda>_. [])
        (Key_layer := [(''Layer-3'', False), (''Layer-1'', False)],
         Key_category := [(''DeFi'', True), (''EVM'', False)],
         Key_target_audience := [(''Dev teams'', False), (''Startup'', False)],
         Key_ecosystem := [(''Polkadot'', False), (''Moonbeam'', False)])"
  "ecosystemProjects (toggleFilter
      (load example_colors [example_acala, example_moonbeam] initial_state)
      Key_category ''DeFi'') = [example_acala, example_moonbeam]"
  by (simp_all add: example_defs model_defs eval_simps fun_eq_iff)

lemma example_toggled_status:
  "filters (toggleFilter_status
      (load_status example_colors [example_acala, example_moonbeam] initial_state_status)
      SKey_status ''Connected to Relay chain'')
     = (\<lambda>_. [])
        (SKey_category := [(''DeFi'', False), (''EVM'', False)],
         SKey_status := [(''Connected to Relay chain'', True), (''In production'', False)],
         SKey_target_audience := [(''Dev teams'', False), (''Startup'', False)],
         SKey_ecosystem := [(''Polkadot'', False), (''Moonbeam'', False)])"
  "ecosystemProjects (toggleFilter_status
      (load_status example_colors [example_acala, example_moonbeam] initial_state_status)
      SKey_status ''Connected to Relay chain'') = [example_acala, example_moonbeam]"
  "query (toggleFilter_status
      (load_status example_colors [example_acala, example_moonbeam] initial_state_status)
      SKey_status ''Connected to Relay chain'') = []"
  by (simp_all add: example_defs model_defs eval_simps fun_eq_iff)

text \<open>
  Witness for C1: after loading Acala and Moonbeam and selecting DeFi, Acala is visible;
  EVM is not yet selected, and selecting it narrows the result. With the status of Acala
  selected in the variant with status, Acala is visible, and selecting the status of
  Moonbeam as well narrows the result.
\<close>

theorem C1_every_selected_value_witness:
  "example_acala \<in> set (data (filterProjects
      (toggleFilter (load example_colors [example_acala, example_moonbeam] initial_state)
         Key_category ''DeFi'')))
   \<and> obj_get (filters (toggleFilter
        (load example_colors [example_acala, example_moonbeam] initial_state)
        Key_category ''DeFi'') Key_category) ''EVM'' \<noteq> Some True
   \<and> set (data (toggleFilter (toggleFilter
        (load example_colors [example_acala, example_moonbeam] initial_state)
        Key_category ''DeFi'') Key_category ''EVM''))
       \<subseteq> set (data (filterProjects (toggleFilter
        (load example_colors [example_acala, example_moonbeam] initial_state)
        Key_category ''DeFi'')))
   \<and> example_acala \<in> set (data (filterProjects_status
        (toggleFilter_status
           (load_status example_colors [example_acala, example_moonbeam] initial_state_status)
           SKey_status ''Connected to Relay chain'')))
   \<and> obj_get (filters (toggleFilter_status
        (load_status example_colors [example_acala, example_moonbeam] initial_state_status)
        SKey_status ''Connected to Relay chain'') SKey_status) ''In production'' \<noteq> Some True
   \<and> set (data (toggleFilter_status (toggleFilter_status
        (load_status example_colors [example_acala, example_moonbeam] initial_state_status)
        SKey_status ''Connected to Relay chain'') SKey_status ''In production''))
       \<subseteq> set (data (filterProjects_status (toggleFilter_status
        (load_status example_colors [example_acala, example_moonbeam] initial_state_status)
        SKey_status ''Connected to Relay chain'')))"
proof -
  define S where
    "S = toggleFilter (load example_colors [example_acala, example_moonbeam] initial_state)
           Key_category ''DeFi''"
  define R where
    "R = toggleFilter_status
           (load_status example_colors [example_acala, example_moonbeam] initial_state_status)
           SKey_status ''Connected to Relay chain''"
  note S = example_toggled [folded S_def]
  note R = example_toggled_status [folded R_def]
  note c = C1_every_selected_value
    [of example_acala S Key_category "''EVM''" R SKey_status "''In production''"]
  have unselected: "obj_get (filters S Key_category) ''EVM'' \<noteq> Some True"
    by (simp add: S obj_get_def)
  have unselected': "obj_get (filters R SKey_status) ''In production'' \<noteq> Some True"
    by (simp add: R obj_get_def)
  have "example_acala \<in> set (data (filterProjects S))"
    using c by (simp add: S all_TCategory selected_def obj_get_def Object_keys_def
        project_field_def example_acala_def)
  moreover have "set (data (toggleFilter S Key_category ''EVM''))
                   \<subseteq> set (data (filterProjects S))"
    using c unselected by blast
  moreover have "example_acala \<in> set (data (filterProjects_status R))"
    using c by (simp add: R selected_def obj_get_def Object_keys_def example_acala_def
        toLowerCase_def trim_def)
  moreover have "set (data (toggleFilter_status R SKey_status ''In production''))
                   \<subseteq> set (data (filterProjects_status R))"
    using c unselected' by blast
  ultimately show ?thesis
    using unselected unselected' unfolding S_def R_def by blast
qed

section \<open>Properties of toggle\<close>

lemma key_absent_get: "k \<notin> set (Object_keys ob) \<Longrightarrow> obj_get ob k = None"
  by (simp add: Object_keys_def obj_get_def map_of_eq_None_iff)

lemma toggleFilter_fields:
  "filters (toggleFilter st T v) = toggleFilterByCategory (filters st) T v"
  "ecosystemProjects (toggleFilter st T v) = ecosystemProjects st"
  "colorMap (toggleFilter st T v) = colorMap st"
  by (simp_all add: toggleFilter_def filterProjects_def)

lemma toggleFilter_status_fields:
  "filters (toggleFilter_status sst TS v) = toggleFilterByCategory (filters sst) TS v"
  "ecosystemProjects (toggleFilter_status sst TS v) = ecosystemProjects sst"
  "colorMap (toggleFilter_status sst TS v) = colorMap sst"
  "query (toggleFilter_status sst TS v) = query sst"
  "counts (toggleFilter_status sst TS v) = counts sst"
  by (simp_all add: toggleFilter_status_def filterProjects_status_def Let_def)

lemma filterProjects_data_cong:
  assumes "\<And>T. set (selected (filters st T)) = set (selected (filters st' T))"
    and "ecosystemProjects st = ecosystemProjects st'"
  shows "data (filterProjects st) = data (filterProjects st')"
  using assms by (simp add: filterProjects_def list_all_iff)

lemma toggle_unknown_flag:
  assumes "v \<notin> set (Object_keys (fs T))"
  shows "toggleFilterByCategory fs T v T = obj_set (fs T) v (v \<notin> set Object_prototype)"
  using obj_read_absent [OF assms]
  by (simp add: toggleFilterByCategory_apply not_value_def)

lemma unknown_not_selected: "v \<notin> set (Object_keys ob) \<Longrightarrow> v \<notin> set (selected ob)"
  by (simp add: selected_def)

lemma toggle_unknown_data:
  assumes "v \<notin> set (Object_keys (filters st T))" and "v \<notin> set Object_prototype"
  shows "set (data (toggleFilter st T v))
           = {p \<in> set (data (filterProjects st)).
                v \<noteq> [] \<and> (\<exists>ds. project_field T p = Some ds \<and> v \<in> set ds)}"
proof -
  have sel: "set (selected (toggleFilterByCategory (filters st) T v T'))
               = (if T' = T then insert v (set (selected (filters st T)))
                  else set (selected (filters st T')))"
    for T'
    using assms(2)
    by (simp add: toggle_unknown_flag [of v "filters st" T, OF assms(1)] set_selected_obj_set_True)
      (simp add: toggleFilterByCategory_apply)
  have "p \<in> set (data (toggleFilter st T v)) \<longleftrightarrow>
          p \<in> set (data (filterProjects st))
          \<and> v \<noteq> [] \<and> (\<exists>ds. project_field T p = Some ds \<and> v \<in> set ds)" for p
    unfolding toggleFilter_def in_filterProjects
    by (simp add: sel) blast
  then show ?thesis by blast
qed

lemma toggle_inherited_data:
  assumes "v \<notin> set (Object_keys (filters st T))" and "v \<in> set Object_prototype"
  shows "data (toggleFilter st T v) = data (filterProjects st)"
proof -
  have "set (selected (toggleFilterByCategory (filters st) T v T'))
          = set (selected (filters st T'))" for T'
  proof (cases "T' = T")
    case True
    then show ?thesis
      using assms(2) unknown_not_selected [OF assms(1)]
      by (simp add: toggle_unknown_flag [of v "filters st" T, OF assms(1)] set_selected_obj_set_False)
  next
    case False
    then show ?thesis by (simp add: toggleFilterByCategory_apply)
  qed
  then show ?thesis
    unfolding toggleFilter_def
    by (intro filterProjects_data_cong) simp_all
qed

text \<open>
  Claim C2, as stated, fails: after loading Acala (ecosystems Polkadot and Ethereum) and
  Moonbeam, Ethereum is not a key of the ecosystem filters, since it is not on the
  allow-list, but the card of Acala shows it as a chip. Clicking that chip adds the key
  with the flag \<open>true\<close> and takes Moonbeam out of the visible projects.
\<close>

theorem C2_toggle_unknown_counterexample:
  "''Ethereum'' \<notin> set (Object_keys
      (filters (load example_colors [example_acala, example_moonbeam] initial_state)
         Key_ecosystem))
   \<and> filters (toggleFilter (load example_colors [example_acala, example_moonbeam] initial_state)
         Key_ecosystem ''Ethereum'') Key_ecosystem
       = [(''Polkadot'', False), (''Moonbeam'', False), (''Ethereum'', True)]
   \<and> data (load example_colors [example_acala, example_moonbeam] initial_state)
       = [example_acala, example_moonbeam]
   \<and> data (toggleFilter (load example_colors [example_acala, example_moonbeam] initial_state)
         Key_ecosystem ''Ethereum'') = [example_acala]"
  by (simp add: example_defs model_defs eval_simps)

text \<open>
  Claim C2, amended: for every dimension and every string \<open>v\<close> that is not a key of the
  dimension's filter map, toggle does not throw (it is a total function of the state) and
  adds \<open>v\<close> as a key: with the flag \<open>true\<close>, unless \<open>v\<close> is the name of a member of
  \<^verbatim>\<open>Object.prototype\<close> (\<^verbatim>\<open>constructor\<close>, \<^verbatim>\<open>toString\<close>, \<^verbatim>\<open>__proto__\<close> and the like),
  which the lookup finds and negates to \<open>false\<close>. The key set of the dimension grows by
  \<open>v\<close>; the other flags of the dimension, the maps of the other dimensions, the stored
  projects and the colors stay as they are. With the flag \<open>true\<close> the visible projects are
  narrowed to those that carry \<open>v\<close> in that dimension as a non-empty value (to none when
  \<open>v\<close> is the empty string); with the flag \<open>false\<close> the visible projects stay as they are.
\<close>

theorem C2_toggle_unknown_adds_key:
  assumes "v \<notin> set (Object_keys (filters st T))"
  shows "obj_get (filters (toggleFilter st T v) T) v = Some (v \<notin> set Object_prototype)
       \<and> set (Object_keys (filters (toggleFilter st T v) T))
           = insert v (set (Object_keys (filters st T)))
       \<and> (\<forall>k. k \<noteq> v \<longrightarrow> obj_get (filters (toggleFilter st T v) T) k = obj_get (filters st T) k)
       \<and> (\<forall>T'. T' \<noteq> T \<longrightarrow> filters (toggleFilter st T v) T' = filters st T')
       \<and> ecosystemProjects (toggleFilter st T v) = ecosystemProjects st
       \<and> colorMap (toggleFilter st T v) = colorMap st
       \<and> (v \<notin> set Object_prototype \<longrightarrow>
            set (data (toggleFilter st T v))
              = {p \<in> set (data (filterProjects st)).
                   v \<noteq> [] \<and> (\<exists>ds. project_field T p = Some ds \<and> v \<in> set ds)})
       \<and> (v \<in> set Object_prototype \<longrightarrow>
            data (toggleFilter st T v) = data (filterProjects st))"
proof -
  note f = toggle_unknown_flag [of v "filters st" T, OF assms]
  have others: "\<forall>T'. T' \<noteq> T \<longrightarrow> toggleFilterByCategory (filters st) T v T' = filters st T'"
    by (simp add: toggleFilterByCategory_apply)
  show ?thesis
    using others toggle_unknown_data [OF assms] toggle_inherited_data [OF assms]
    by (simp add: toggleFilter_fields f obj_get_obj_set set_Object_keys_obj_set)
qed

text \<open>
  Witness for C2: the chip Ethereum on the card of Acala, clicked after the load, and a
  toggle of the inherited name \<^verbatim>\<open>constructor\<close>.
\<close>

theorem C2_toggle_unknown_adds_key_witness:
  "''Ethereum'' \<notin> set (Object_keys
      (filters (load example_colors [example_acala, example_moonbeam] initial_state)
         Key_ecosystem))
   \<and> ''Ethereum'' \<notin> set Object_prototype
   \<and> obj_get (filters (toggleFilter
         (load example_colors [example_acala, example_moonbeam] initial_state)
         Key_ecosystem ''Ethereum'') Key_ecosystem) ''Ethereum'' = Some True
   \<and> obj_get (filters (toggleFilter
         (load example_colors [example_acala, example_moonbeam] initial_state)
         Key_ecosystem ''Ethereum'') Key_ecosystem) ''Polkadot''
       = obj_get (filters (load example_colors [example_acala, example_moonbeam] initial_state)
           Key_ecosystem) ''Polkadot''
   \<and> filters (toggleFilter
         (load example_colors [example_acala, example_moonbeam] initial_state)
         Key_ecosystem ''Ethereum'') Key_category
       = filters (load example_colors [example_acala, example_moonbeam] initial_state)
           Key_category
   \<and> set (data (toggleFilter
         (load example_colors [example_acala, example_moonbeam] initial_state)
         Key_ecosystem ''Ethereum''))
       = {p \<in> set (data (filterProjects
               (load example_colors [example_acala, example_moonbeam] initial_state))).
            ''Ethereum'' \<noteq> [] \<and> (\<exists>ds. project_field Key_ecosystem p = Some ds \<and> ''Ethereum'' \<in> set ds)}
   \<and> ''constructor'' \<notin> set (Object_keys
      (filters (load example_colors [example_acala, example_moonbeam] initial_state)
         Key_category))
   \<and> ''constructor'' \<in> set Object_prototype
   \<and> obj_get (filters (toggleFilter
         (load example_colors [example_acala, example_moonbeam] initial_state)
         Key_category ''constructor'') Key_category) ''constructor'' = Some False
   \<and> data (toggleFilter
         (load example_colors [example_acala, example_moonbeam] initial_state)
         Key_category ''constructor'')
       = data (filterProjects
           (load example_colors [example_acala, example_moonbeam] initial_state))"
proof -
  define S where "S = load example_colors [example_acala, example_moonbeam] initial_state"
  have unknown: "''Ethereum'' \<notin> set (Object_keys (filters S Key_ecosystem))"
    by (simp add: S_def example_defs model_defs eval_simps)
  have unknown': "''constructor'' \<notin> set (Object_keys (filters S Key_category))"
    by (simp add: S_def example_defs model_defs eval_simps)
  have plain: "''Ethereum'' \<notin> set Object_prototype"
    by (simp add: Object_prototype_def)
  have inherited: "''constructor'' \<in> set Object_prototype"
    by (simp add: Object_prototype_def)
  note c = C2_toggle_unknown_adds_key [OF unknown]
  note c' = C2_toggle_unknown_adds_key [OF unknown']
  have "obj_get (filters (toggleFilter S Key_ecosystem ''Ethereum'') Key_ecosystem) ''Ethereum''
          = Some True"
    using c plain by simp
  moreover
  have "obj_get (filters (toggleFilter S Key_ecosystem ''Ethereum'') Key_ecosystem) ''Polkadot''
          = obj_get (filters S Key_ecosystem) ''Polkadot''"
    using c by simp
  moreover have "filters (toggleFilter S Key_ecosystem ''Ethereum'') Key_category
          = filters S Key_category"
    using c by simp
  moreover have "set (data (toggleFilter S Key_ecosystem ''Ethereum''))
       = {p \<in> set (data (filterProjects S)).
            ''Ethereum'' \<noteq> [] \<and> (\<exists>ds. project_field Key_ecosystem p = Some ds \<and> ''Ethereum'' \<in> set ds)}"
    using c plain by blast
  moreover
  have "obj_get (filters (toggleFilter S Key_category ''constructor'') Key_category) ''constructor''
          = Some False"
    using c' inherited by simp
  moreover have "data (toggleFilter S Key_category ''constructor'') = data (filterProjects S)"
    using c' inherited by blast
  ultimately show ?thesis
    using unknown unknown' plain inherited unfolding S_def by blast
qed

text \<open>
  Claim C8: for a facet value that is a key of the dimension's filter map, two toggles in
  succession give back the filter state, flag for flag and key for key, and with it the
  visible projects of that filter state; in both variants.
\<close>

theorem C8_toggle_twice_restores:
  assumes "v \<in> set (Object_keys (filters st T))"
    and "w \<in> set (Object_keys (filters sst TS))"
  shows "toggleFilterByCategory (toggleFilterByCategory (filters st) T v) T v = filters st
       \<and> toggleFilter (toggleFilter st T v) T v = filterProjects st
       \<and> (data st = data (filterProjects st) \<longrightarrow> toggleFilter (toggleFilter st T v) T v = st)
       \<and> toggleFilter_status (toggleFilter_status sst TS w) TS w = filterProjects_status sst
       \<and> (data sst = data (filterProjects_status sst)
            \<longrightarrow> toggleFilter_status (toggleFilter_status sst TS w) TS w = sst)"
proof -
  have a: "toggleFilterByCategory (toggleFilterByCategory (filters st) T v) T v = filters st"
    using assms(1) by (rule toggle_twice)
  have b: "toggleFilterByCategory (toggleFilterByCategory (filters sst) TS w) TS w = filters sst"
    using assms(2) by (rule toggle_twice)
  have c: "toggleFilter (toggleFilter st T v) T v = filterProjects st"
    by (simp add: toggleFilter_def filterProjects_def a)
  have d: "toggleFilter_status (toggleFilter_status sst TS w) TS w = filterProjects_status sst"
    by (simp add: toggleFilter_status_def filterProjects_status_def a b Let_def)
  have e: "data st = data (filterProjects st) \<Longrightarrow> filterProjects st = st"
    by (simp add: filterProjects_def)
  have f: "data sst = data (filterProjects_status sst) \<Longrightarrow> filterProjects_status sst = sst"
    by (simp add: filterProjects_status_def Let_def)
  show ?thesis using a c d e f by simp
qed

text \<open>
  Witness for C8: DeFi, and the status In production, toggled twice right after the load.
\<close>

theorem C8_toggle_twice_restores_witness:
  "''DeFi'' \<in> set (Object_keys
      (filters (load example_colors [example_acala, example_moonbeam] initial_state)
         Key_category))
   \<and> ''In production'' \<in> set (Object_keys
      (filters (load_status example_colors [example_acala, example_moonbeam] initial_state_status)
         SKey_status))
   \<and> toggleFilter (toggleFilter
        (load example_colors [example_acala, example_moonbeam] initial_state)
        Key_category ''DeFi'') Key_category ''DeFi''
       = load example_colors [example_acala, example_moonbeam] initial_state
   \<and> toggleFilter_status (toggleFilter_status
        (load_status example_colors [example_acala, example_moonbeam] initial_state_status)
        SKey_status ''In production'') SKey_status ''In production''
       = load_status example_colors [example_acala, example_moonbeam] initial_state_status"
proof -
  define S where "S = load example_colors [example_acala, example_moonbeam] initial_state"
  define R where
    "R = load_status example_colors [example_acala, example_moonbeam] initial_state_status"
  have k1: "''DeFi'' \<in> set (Object_keys (filters S Key_category))"
    by (simp add: S_def example_defs model_defs eval_simps)
  have k2: "''In production'' \<in> set (Object_keys (filters R SKey_status))"
    by (simp add: R_def example_defs model_defs eval_simps)
  have d1: "data S = data (filterProjects S)"
    by (simp add: S_def load_def filterProjects_def)
  have d2: "data R = data (filterProjects_status R)"
    by (simp add: R_def load_status_def filterProjects_status_def Let_def)
  show ?thesis
    using C8_toggle_twice_restores [OF k1 k2] k1 k2 d1 d2 unfolding S_def R_def by blast
qed

section \<open>Properties of the load effect\<close>

lemma load_fields:
  "filters (load colors d st) = load_filters d"
  "colorMap (load colors d st) = assign_colors colors (color_traversal (load_filters d))"
  "ecosystemProjects (load colors d st) = sortProjects d"
  by (simp_all add: load_def filterProjects_def)

lemma load_status_fields:
  "filters (load_status colors d sst) = fst (load_facets_status d)"
  "counts (load_status colors d sst) = snd (load_facets_status d)"
  "colorMap (load_status colors d sst)
     = assign_colors colors (color_traversal_status (fst (load_facets_status d)))"
  "ecosystemProjects (load_status colors d sst) = sortProjects d"
  "query (load_status colors d sst) = query sst"
  by (simp_all add: load_status_def filterProjects_status_def Let_def)

lemma keys_load_filters: "set (Object_keys (load_filters d T)) = set (facet_values T d)"
  using set_keys_fold_obj_set [of "\<lambda>_ _. False" "facet_values T d" "[]"]
  by (simp add: load_filters_facets Object_keys_def)

lemma keys_load_facets_status:
  "set (Object_keys (fst (load_facets_status d) T)) = set (facet_values_status T d)"
  "set (Object_keys (snd (load_facets_status d) T)) = set (facet_values_status T d)"
  using set_keys_fold_obj_set [of "\<lambda>_ _. False" "facet_values_status T d" "[]"]
    set_keys_fold_obj_set
      [of "\<lambda>ob l. plus_one (obj_read ob l) l" "facet_values_status T d" "[]"]
  by (simp_all add: load_facets_status_facets Object_keys_def)

lemma set_admitted:
  "set (admitted eco arr)
     = {l. l \<noteq> [] \<and> (eco \<longrightarrow> l \<in> allowedEcosystems) \<and> (\<exists>ls. arr = Some ls \<and> l \<in> set ls)}"
  by (cases arr) (auto simp: admitted_def)

lemma ecosystem_facet_values:
  "set (facet_values Key_ecosystem d)
     = {l. l \<noteq> [] \<and> l \<in> allowedEcosystems
           \<and> (\<exists>c\<in>set d. \<exists>ls. ecosystem c = Some ls \<and> l \<in> set ls)}"
  "set (facet_values_status SKey_ecosystem d)
     = {l. l \<noteq> [] \<and> l \<in> allowedEcosystems
           \<and> (\<exists>c\<in>set d. \<exists>ls. ecosystem c = Some ls \<and> l \<in> set ls)}"
proof -
  have "''__proto__'' \<notin> allowedEcosystems"
    by (simp add: allowedEcosystems_def)
  then show
    "set (facet_values Key_ecosystem d)
       = {l. l \<noteq> [] \<and> l \<in> allowedEcosystems
             \<and> (\<exists>c\<in>set d. \<exists>ls. ecosystem c = Some ls \<and> l \<in> set ls)}"
    "set (facet_values_status SKey_ecosystem d)
       = {l. l \<noteq> [] \<and> l \<in> allowedEcosystems
             \<and> (\<exists>c\<in>set d. \<exists>ls. ecosystem c = Some ls \<and> l \<in> set ls)}"
    by (auto simp: facet_values_def facet_values_status_def assigned_values_def
        assigned_values_status_def set_admitted project_field_def project_field_status_def)
qed

text \<open>
  Claim C6: after a load, the keys of the ecosystem filters, and of the ecosystem counts,
  are exactly the non-empty ecosystem values of the loaded records that are on the
  allow-list of six; Ethereum, which is not on it, is never among them. In both variants.
\<close>

theorem C6_ecosystem_allow_list:
  "set (Object_keys (filters (load_status colors d sst) SKey_ecosystem))
     = {l. l \<noteq> [] \<and> l \<in> allowedEcosystems
           \<and> (\<exists>c\<in>set d. \<exists>ls. ecosystem c = Some ls \<and> l \<in> set ls)}
   \<and> set (Object_keys (counts (load_status colors d sst) SKey_ecosystem))
       = set (Object_keys (filters (load_status colors d sst) SKey_ecosystem))
   \<and> set (Object_keys (filters (load colors d st) Key_ecosystem))
       = {l. l \<noteq> [] \<and> l \<in> allowedEcosystems
             \<and> (\<exists>c\<in>set d. \<exists>ls. ecosystem c = Some ls \<and> l \<in> set ls)}
   \<and> allowedEcosystems
       = {''Acala Network'', ''Aleph Zero'', ''Astar Network'', ''Kusama'', ''Moonbeam'',
          ''Polkadot''}
   \<and> ''Ethereum'' \<notin> set (Object_keys (filters (load_status colors d sst) SKey_ecosystem))
   \<and> ''Ethereum'' \<notin> set (Object_keys (counts (load_status colors d sst) SKey_ecosystem))
   \<and> ''Ethereum'' \<notin> set (Object_keys (filters (load colors d st) Key_ecosystem))"
proof -
  have "''Ethereum'' \<notin> allowedEcosystems"
    by (simp add: allowedEcosystems_def)
  then show ?thesis
    by (simp add: load_fields load_status_fields keys_load_filters keys_load_facets_status
        ecosystem_facet_values) (simp add: allowedEcosystems_def)
qed

text \<open>
  Witness for C6: Acala carries Polkadot and Ethereum, Moonbeam carries Moonbeam; the
  ecosystem filters after the load have the keys Polkadot and Moonbeam.
\<close>

theorem C6_ecosystem_allow_list_witness:
  "Object_keys (filters
      (load_status example_colors [example_acala, example_moonbeam] initial_state_status)
      SKey_ecosystem) = [''Polkadot'', ''Moonbeam'']
   \<and> ecosystem example_acala = Some [''Polkadot'', ''Ethereum'']
   \<and> ''Ethereum'' \<notin> set (Object_keys (filters
        (load_status example_colors [example_acala, example_moonbeam] initial_state_status)
        SKey_ecosystem))"
proof -
  have "Object_keys (filters
      (load_status example_colors [example_acala, example_moonbeam] initial_state_status)
      SKey_ecosystem) = [''Polkadot'', ''Moonbeam'']"
    by (simp add: example_defs model_defs eval_simps)
  moreover have "ecosystem example_acala = Some [''Polkadot'', ''Ethereum'']"
    by (simp add: example_acala_def)
  ultimately show ?thesis
    using C6_ecosystem_allow_list [of example_colors "[example_acala, example_moonbeam]"
        initial_state_status initial_state]
    by blast
qed

lemma Card_keeps_facets:
  "category (snd (Card_ActivityIndicator p today)) = category p"
  "layer (snd (Card_ActivityIndicator p today)) = layer p"
  "target_audience (snd (Card_ActivityIndicator p today)) = target_audience p"
  "ecosystem (snd (Card_ActivityIndicator p today)) = ecosystem p"
  "readiness (snd (Card_ActivityIndicator p today)) = readiness p"
  by (simp_all add: Card_ActivityIndicator_def Card_githubPushedAt_def split: option.splits)

lemma facet_values_after_render:
  "facet_values T (map (\<lambda>p. snd (Card_ActivityIndicator p today)) d) = facet_values T d"
  "facet_values_status TS (map (\<lambda>p. snd (Card_ActivityIndicator p today)) d)
     = facet_values_status TS d"
   apply (cases T;
      simp add: facet_values_def assigned_values_def project_field_def Card_keeps_facets comp_def)
  apply (cases TS;
      simp add: facet_values_status_def assigned_values_status_def project_field_status_def
        Card_keeps_facets comp_def)
  done

lemma load_after_render:
  "load_filters (map (\<lambda>p. snd (Card_ActivityIndicator p today)) d) = load_filters d"
  "load_facets_status (map (\<lambda>p. snd (Card_ActivityIndicator p today)) d) = load_facets_status d"
proof -
  show "load_filters (map (\<lambda>p. snd (Card_ActivityIndicator p today)) d) = load_filters d"
    by (simp add: fun_eq_iff load_filters_facets facet_values_after_render)
  have "fst (load_facets_status (map (\<lambda>p. snd (Card_ActivityIndicator p today)) d))
          = fst (load_facets_status d)"
    by (simp add: fun_eq_iff load_facets_status_facets facet_values_after_render)
  moreover have "snd (load_facets_status (map (\<lambda>p. snd (Card_ActivityIndicator p today)) d))
          = snd (load_facets_status d)"
    by (simp add: fun_eq_iff load_facets_status_facets facet_values_after_render)
  ultimately show
    "load_facets_status (map (\<lambda>p. snd (Card_ActivityIndicator p today)) d) = load_facets_status d"
    by (simp add: prod_eq_iff)
qed

text \<open>
  Claim C5: the facets, the counts and the color map that a load leaves behind are
  functions of the loaded records (and the palette) alone: two loads of the same record
  sequence, from whatever states, agree on them, in both variants. They read the facet
  fields of the records only, so even the samples that rendering the cards pops off the
  metrics between two loads make no difference.
\<close>

theorem C5_load_deterministic:
  "filters (load_status colors d sst) = filters (load_status colors d sst')
   \<and> counts (load_status colors d sst) = counts (load_status colors d sst')
   \<and> colorMap (load_status colors d sst) = colorMap (load_status colors d sst')
   \<and> filters (load colors d st) = filters (load colors d st')
   \<and> colorMap (load colors d st) = colorMap (load colors d st')
   \<and> filters (load_status colors d sst) = fst (load_facets_status d)
   \<and> counts (load_status colors d sst) = snd (load_facets_status d)
   \<and> colorMap (load_status colors d sst)
       = assign_colors colors (color_traversal_status (fst (load_facets_status d)))
   \<and> filters (load_status colors (map (\<lambda>p. snd (Card_ActivityIndicator p today)) d) sst')
       = filters (load_status colors d sst)
   \<and> counts (load_status colors (map (\<lambda>p. snd (Card_ActivityIndicator p today)) d) sst')
       = counts (load_status colors d sst)
   \<and> colorMap (load_status colors (map (\<lambda>p. snd (Card_ActivityIndicator p today)) d) sst')
       = colorMap (load_status colors d sst)
   \<and> filters (load colors (map (\<lambda>p. snd (Card_ActivityIndicator p today)) d) st')
       = filters (load colors d st)
   \<and> colorMap (load colors (map (\<lambda>p. snd (Card_ActivityIndicator p today)) d) st')
       = colorMap (load colors d st)"
  by (simp add: load_fields load_status_fields load_after_render)

section \<open>Properties of the free-text search\<close>

text \<open>
  Claim C7, as stated, fails: its needle is the lower-cased query, untrimmed. The query
  \<^verbatim>\<open>"  MOON "\<close> is not empty once trimmed and lower-cased, and Moonbeam is shown for it;
  yet the lower-cased query, with its spaces, occurs neither in the lower-cased name nor
  in the lower-cased description of Moonbeam.
\<close>

theorem C7_untrimmed_needle_counterexample:
  "toLowerCase (trim ''  MOON '') \<noteq> []
   \<and> data (setQuery
        (load_status example_colors [example_acala, example_moonbeam] initial_state_status)
        ''  MOON '') = [example_moonbeam]
   \<and> \<not> String_includes (toLowerCase (name example_moonbeam)) (toLowerCase ''  MOON '')
   \<and> \<not> String_includes (toLowerCase (description example_moonbeam))
         (toLowerCase ''  MOON '')"
  by (simp add: example_defs model_defs eval_simps)

text \<open>
  Claim C7, amended: the needle is \<open>search\<close>, the trimmed, lower-cased query. A project is
  visible iff it is stored, passes the four dimensions, and, when \<open>search\<close> is not empty,
  has \<open>search\<close> as a contiguous part (\<open>sublist\<close>) of its lower-cased name or of its
  lower-cased description.
  So a non-empty \<open>search\<close> admits only projects that contain it, and an empty one imposes
  no constraint: the visible projects are those of the empty query.
\<close>

theorem C7_free_text_search:
  "(toLowerCase (trim (query sst)) \<noteq> [] \<longrightarrow>
      p \<in> set (data (filterProjects_status sst)) \<longrightarrow>
        sublist (toLowerCase (trim (query sst))) (toLowerCase (name p))
        \<or> sublist (toLowerCase (trim (query sst))) (toLowerCase (description p)))
   \<and> (toLowerCase (trim (query sst)) \<noteq> [] \<longrightarrow>
        (p \<in> set (data (filterProjects_status sst)) \<longleftrightarrow>
           p \<in> set (data (filterProjects_status (sst\<lparr>query := []\<rparr>)))
           \<and> (sublist (toLowerCase (trim (query sst))) (toLowerCase (name p))
                \<or> sublist (toLowerCase (trim (query sst))) (toLowerCase (description p)))))
   \<and> (toLowerCase (trim (query sst)) = [] \<longrightarrow>
        data (filterProjects_status sst) = data (filterProjects_status (sst\<lparr>query := []\<rparr>)))
   \<and> (sublist (toLowerCase (trim (query sst))) (toLowerCase (name p)) \<longleftrightarrow>
        (\<exists>us vs. toLowerCase (name p) = us @ toLowerCase (trim (query sst)) @ vs))"
proof -
  have empty: "toLowerCase (trim []) = []"
    by (simp add: toLowerCase_def trim_def)
  have a: "p \<in> set (data (filterProjects_status sst)) \<longleftrightarrow>
           p \<in> set (data (filterProjects_status (sst\<lparr>query := []\<rparr>)))
           \<and> (toLowerCase (trim (query sst)) = []
                \<or> sublist (toLowerCase (trim (query sst))) (toLowerCase (name p))
                \<or> sublist (toLowerCase (trim (query sst))) (toLowerCase (description p)))"
    unfolding in_filterProjects_status by (simp add: empty)
  have b: "toLowerCase (trim (query sst)) = [] \<Longrightarrow>
           data (filterProjects_status sst) = data (filterProjects_status (sst\<lparr>query := []\<rparr>))"
    by (simp add: filterProjects_status_def Let_def empty)
  show ?thesis
    using a b by (auto simp: sublist_def)
qed

text \<open>
  Witness for C7: the query \<^verbatim>\<open>"  MOON "\<close> shows Moonbeam only, by its name; a
  query of one space shows every project.
\<close>

theorem C7_free_text_search_witness:
  "toLowerCase (trim ''  MOON '') = ''moon''
   \<and> data (setQuery
        (load_status example_colors [example_acala, example_moonbeam] initial_state_status)
        ''  MOON '') = [example_moonbeam]
   \<and> sublist ''moon'' (toLowerCase (name example_moonbeam))
   \<and> toLowerCase (trim '' '') = []
   \<and> data (setQuery
        (load_status example_colors [example_acala, example_moonbeam] initial_state_status)
        '' '') = [example_acala, example_moonbeam]"
proof -
  define R where
    "R = load_status example_colors [example_acala, example_moonbeam] initial_state_status"
  have q: "toLowerCase (trim ''  MOON '') = ''moon''"
    by (simp add: toLowerCase_def toLowerCase_char_def trim_def is_white_space_def eval_simps)
  have q': "toLowerCase (trim '' '') = []"
    by (simp add: toLowerCase_def trim_def is_white_space_def)
  have d: "data (setQuery R ''  MOON '') = [example_moonbeam]"
    by (simp add: R_def example_defs model_defs eval_simps)
  have d': "data (setQuery R '' '') = [example_acala, example_moonbeam]"
    by (simp add: R_def example_defs model_defs eval_simps)
  have m: "example_moonbeam \<in> set (data (filterProjects_status (R\<lparr>query := ''  MOON ''\<rparr>)))"
    using d by (simp add: setQuery_def)
  have "sublist ''moon'' (toLowerCase (name example_moonbeam))
        \<or> sublist ''moon'' (toLowerCase (description example_moonbeam))"
    using C7_free_text_search [of "R\<lparr>query := ''  MOON ''\<rparr>" example_moonbeam, THEN conjunct1]
      q m by simp
  moreover have "\<not> sublist ''moon'' (toLowerCase (description example_moonbeam))"
    by (simp add: String_includes_iff_sublist [symmetric] example_moonbeam_def toLowerCase_def
        toLowerCase_char_def eval_simps)
  ultimately have s: "sublist ''moon'' (toLowerCase (name example_moonbeam))"
    by blast
  have "data (filterProjects_status (R\<lparr>query := '' ''\<rparr>))
          = data (filterProjects_status (R\<lparr>query := '' '', query := []\<rparr>))"
    using C7_free_text_search [of "R\<lparr>query := '' ''\<rparr>" example_moonbeam,
        THEN conjunct2, THEN conjunct2, THEN conjunct1] q' by simp
  then show ?thesis
    using q q' d d' s unfolding R_def by blast
qed

section \<open>Properties of the card\<close>

text \<open>
  Claim C9: rendering the activity indicator of a card is not observation-only. When the
  record has a sample of \<^verbatim>\<open>github_pushed_at\<close>, the indicator is computed from the value
  of the last one, and the record is left with that sample removed: the sequence is
  shorter by one after each evaluation.
\<close>

theorem C9_indicator_pops_sample:
  assumes "metrics p = Some m" and "github_pushed_at m = Some samples" and "samples \<noteq> []"
  shows "fst (Card_ActivityIndicator p today)
           = getActivityIndicator (Some (sample_value (last samples))) today
       \<and> snd (Card_ActivityIndicator p today)
           = p\<lparr>metrics := Some (m\<lparr>github_pushed_at := Some (butlast samples)\<rparr>)\<rparr>
       \<and> Option.bind (metrics (snd (Card_ActivityIndicator p today))) github_pushed_at
           = Some (butlast samples)
       \<and> length (butlast samples) + 1 = length samples
       \<and> snd (Card_ActivityIndicator p today) \<noteq> p"
proof -
  have neq: "butlast samples \<noteq> samples"
    using assms(3) by (metis length_butlast diff_less length_greater_0_conv less_irrefl zero_less_one)
  have "snd (Card_ActivityIndicator p today)
          = p\<lparr>metrics := Some (m\<lparr>github_pushed_at := Some (butlast samples)\<rparr>)\<rparr>"
    using assms by (simp add: Card_ActivityIndicator_def Card_githubPushedAt_def Array_pop_def)
  moreover have "p\<lparr>metrics := Some (m\<lparr>github_pushed_at := Some (butlast samples)\<rparr>)\<rparr> \<noteq> p"
  proof
    assume "p\<lparr>metrics := Some (m\<lparr>github_pushed_at := Some (butlast samples)\<rparr>)\<rparr> = p"
    then have "metrics (p\<lparr>metrics := Some (m\<lparr>github_pushed_at := Some (butlast samples)\<rparr>)\<rparr>)
                 = metrics p" by simp
    with assms(1) have "m\<lparr>github_pushed_at := Some (butlast samples)\<rparr> = m" by simp
    then have "github_pushed_at (m\<lparr>github_pushed_at := Some (butlast samples)\<rparr>)
                 = github_pushed_at m" by simp
    with assms(2) neq show False by simp
  qed
  ultimately show ?thesis
    using assms by (simp add: Card_ActivityIndicator_def Card_githubPushedAt_def Array_pop_def)
qed

text \<open>
  Witness for C9: Acala has two samples; the first rendering leaves one, the second none.
\<close>

theorem C9_indicator_pops_sample_witness:
  "Option.bind (metrics example_acala) github_pushed_at
     = Some [\<lparr>date = ''2024-01-01'', sample_value = 1704067200\<rparr>,
             \<lparr>date = ''2024-02-01'', sample_value = 1706745600\<rparr>]
   \<and> Option.bind (metrics (snd (Card_ActivityIndicator example_acala 1710000000000)))
        github_pushed_at
       = Some [\<lparr>date = ''2024-01-01'', sample_value = 1704067200\<rparr>]
   \<and> fst (Card_ActivityIndicator example_acala 1710000000000) = ind_active
   \<and> fst (Card_ActivityIndicator (snd (Card_ActivityIndicator example_acala 1710000000000))
        1710000000000) = ind_active
   \<and> Option.bind (metrics (snd (Card_ActivityIndicator
        (snd (Card_ActivityIndicator example_acala 1710000000000)) 1710000000000)))
        github_pushed_at = Some []"
proof -
  have m: "metrics example_acala
             = Some \<lparr>github_pushed_at =
                  Some [\<lparr>date = ''2024-01-01'', sample_value = 1704067200\<rparr>,
                        \<lparr>date = ''2024-02-01'', sample_value = 1706745600\<rparr>]\<rparr>"
    by (simp add: example_acala_def)
  have g: "github_pushed_at \<lparr>github_pushed_at =
                  Some [\<lparr>date = ''2024-01-01'', sample_value = 1704067200\<rparr>,
                        \<lparr>date = ''2024-02-01'', sample_value = 1706745600\<rparr>]\<rparr>
             = Some [\<lparr>date = ''2024-01-01'', sample_value = 1704067200\<rparr>,
                     \<lparr>date = ''2024-02-01'', sample_value = 1706745600\<rparr>]"
    by simp
  have ne: "[\<lparr>date = ''2024-01-01'', sample_value = 1704067200\<rparr>,
             \<lparr>date = ''2024-02-01'', sample_value = (1706745600::int)\<rparr>] \<noteq> []"
    by simp
  note c = C9_indicator_pops_sample [OF m g ne, of 1710000000000]
  have second: "fst (Card_ActivityIndicator (snd (Card_ActivityIndicator example_acala 1710000000000))
        1710000000000) = ind_active
   \<and> Option.bind (metrics (snd (Card_ActivityIndicator
        (snd (Card_ActivityIndicator example_acala 1710000000000)) 1710000000000)))
        github_pushed_at = Some []"
    by (simp add: example_acala_def Card_ActivityIndicator_def Card_githubPushedAt_def
        Array_pop_def getActivityIndicator_def Date_getTime_def diffDays_def)
  show ?thesis
    using c m second
    by (simp add: getActivityIndicator_def Date_getTime_def diffDays_def)
qed

section \<open>The key order of an object built by assignments\<close>

lemma insort_key_insert_after:
  "insort_key f a (takeWhile (\<lambda>y. f y \<le> f k) xs @ k # dropWhile (\<lambda>y. f y \<le> f k) xs)
     = takeWhile (\<lambda>y. f y \<le> f k) (insort_key f a xs)
         @ k # dropWhile (\<lambda>y. f y \<le> f k) (insort_key f a xs)"
  for f :: "'a \<Rightarrow> int"
  by (induction xs) auto

lemma sort_key_snoc:
  "sort_key f (xs @ [k])
     = takeWhile (\<lambda>y. f y \<le> f k) (sort_key f xs)
         @ k # dropWhile (\<lambda>y. f y \<le> f k) (sort_key f xs)"
  for f :: "'a \<Rightarrow> int"
  by (induction xs) (simp_all add: insort_key_insert_after)

lemma keys_obj_insert_index:
  assumes "array_index k = Some i"
    and "\<forall>k'\<in>set S. array_index k' \<noteq> None"
    and "\<forall>k'\<in>set N. array_index k' = None"
    and "map fst ob = S @ N"
  shows "map fst (obj_insert ob k v)
           = takeWhile (\<lambda>y. index_value y \<le> index_value k) S
               @ k # dropWhile (\<lambda>y. index_value y \<le> index_value k) S @ N"
  using assms(2,4)
proof (induction ob arbitrary: S)
  case Nil
  then show ?case by simp
next
  case (Cons a ob)
  obtain k' v' where a: "a = (k', v')" by (cases a)
  show ?case
  proof (cases S)
    case Nil
    with Cons.prems a have "k' \<in> set N" by (cases N) auto
    with assms(3) have "array_index k' = None" by blast
    with assms(1) have "key_before k k'" by (simp add: key_before_def)
    with Nil Cons.prems show ?thesis by (simp add: a)
  next
    case (Cons s S')
    with Cons.prems a have s: "k' = s" and rest: "map fst ob = S' @ N" by simp_all
    from Cons Cons.prems(1) obtain j where j: "array_index s = Some j" by auto
    have before: "key_before k s \<longleftrightarrow> \<not> index_value s \<le> index_value k"
      using assms(1) j by (auto simp: key_before_def index_value_def)
    from Cons Cons.prems(1) have S': "\<forall>k'\<in>set S'. array_index k' \<noteq> None" by simp
    show ?thesis
      using Cons.IH [OF S' rest] before Cons.prems(2)
      by (simp add: a s Cons)
  qed
qed

lemma property_order_snoc:
  "property_order (ls @ [x])
     = (if x \<in> set ls then property_order ls
        else if array_index x = None then property_order ls @ [x]
        else takeWhile (\<lambda>y. index_value y \<le> index_value x)
               (sort_key index_value
                  (filter (\<lambda>k. array_index k \<noteq> None) (first_occurrences ls)))
             @ x # dropWhile (\<lambda>y. index_value y \<le> index_value x)
               (sort_key index_value
                  (filter (\<lambda>k. array_index k \<noteq> None) (first_occurrences ls)))
             @ filter (\<lambda>k. array_index k = None) (first_occurrences ls))"
  by (simp add: property_order_def first_occurrences_snoc sort_key_snoc)

lemma set_property_order: "set (property_order ls) = set ls"
  by (auto simp: property_order_def first_occurrences_def)

lemma Object_keys_obj_set:
  "Object_keys (obj_set ob k v)
     = (if k \<in> set (map fst ob) then map fst ob else map fst (obj_insert ob k v))"
  by (simp add: obj_set_def Object_keys_def keys_obj_update)

lemma keys_fold_obj_set:
  "Object_keys (fold (\<lambda>l ob. obj_set ob l (h ob l)) ls []) = property_order ls"
proof (induction ls rule: rev_induct)
  case Nil
  then show ?case by (simp add: Object_keys_def property_order_def first_occurrences_def)
next
  case (snoc x xs)
  define ob where "ob = fold (\<lambda>l ob. obj_set ob l (h ob l)) xs []"
  have ih: "map fst ob = property_order xs"
    using snoc by (simp add: ob_def Object_keys_def)
  have step: "Object_keys (fold (\<lambda>l ob. obj_set ob l (h ob l)) (xs @ [x]) [])
                = (if x \<in> set xs then property_order xs
                   else map fst (obj_insert ob x (h ob x)))"
    by (simp add: ob_def [symmetric] Object_keys_obj_set ih set_property_order)
  show ?case
  proof (cases "x \<in> set xs")
    case True
    then show ?thesis
      by (simp only: step property_order_snoc if_True)
  next
    case False
    show ?thesis
    proof (cases "array_index x")
      case None
      then show ?thesis
        using False by (simp only: step property_order_snoc obj_insert_plain map_append ih)
          simp
    next
      case (Some i)
      have "map fst (obj_insert ob x (h ob x))
              = takeWhile (\<lambda>y. index_value y \<le> index_value x)
                  (sort_key index_value
                     (filter (\<lambda>k. array_index k \<noteq> None) (first_occurrences xs)))
                @ x # dropWhile (\<lambda>y. index_value y \<le> index_value x)
                  (sort_key index_value
                     (filter (\<lambda>k. array_index k \<noteq> None) (first_occurrences xs)))
                @ filter (\<lambda>k. array_index k = None) (first_occurrences xs)"
        by (rule keys_obj_insert_index [OF Some]) (simp_all add: ih property_order_def)
      then show ?thesis
        using False Some by (simp only: step property_order_snoc) simp
    qed
  qed
qed

lemma property_order_plain:
  "\<forall>k\<in>set ls. array_index k = None \<Longrightarrow> property_order ls = first_occurrences ls"
proof -
  assume a: "\<forall>k\<in>set ls. array_index k = None"
  have s: "set (first_occurrences ls) = set ls" by (simp add: first_occurrences_def)
  have "filter (\<lambda>k. array_index k \<noteq> None) (first_occurrences ls) = []"
    using a s by (simp add: filter_empty_conv)
  moreover have "filter (\<lambda>k. array_index k = None) (first_occurrences ls) = first_occurrences ls"
    using a s by (simp add: filter_id_conv)
  ultimately show ?thesis by (simp add: property_order_def)
qed


lemma keys_load_filters_order:
  "Object_keys (load_filters d T) = property_order (facet_values T d)"
  using keys_fold_obj_set [of "\<lambda>_ _. False" "facet_values T d"]
  by (simp add: load_filters_facets)

lemma keys_load_facets_status_order:
  "Object_keys (fst (load_facets_status d) T) = property_order (facet_values_status T d)"
  using keys_fold_obj_set [of "\<lambda>_ _. False" "facet_values_status T d"]
  by (simp add: load_facets_status_facets)

section \<open>Properties of the color assignment\<close>

text \<open>
  Claim C4, as stated, fails: after loading Acala (layer Layer-3) and Moonbeam (layer
  Layer-1), the layer keys are traversed as Layer-3, Layer-1, the order in which the
  records brought them, not alphabetically; Layer-3 sits at traversal index 2 and gets
  the first of two palette entries, Layer-1 at index 3 the second. Alphabetically Layer-1
  would come first.
\<close>

theorem C4_alphabetical_counterexample:
  "color_traversal (filters (load example_colors [example_acala, example_moonbeam] initial_state))
     = [''DeFi'', ''EVM'', ''Layer-3'', ''Layer-1'', ''Dev teams'', ''Startup'', ''Polkadot'',
        ''Moonbeam'']
   \<and> ''Layer-1'' < ''Layer-3''
   \<and> obj_get (colorMap (load example_colors [example_acala, example_moonbeam] initial_state))
        ''Layer-3'' = Some ''244,67,54''
   \<and> obj_get (colorMap (load example_colors [example_acala, example_moonbeam] initial_state))
        ''Layer-1'' = Some ''33,150,243''
   \<and> color_at example_colors 2 = ''244,67,54''
   \<and> color_at example_colors 3 = ''33,150,243''"
  by (simp add: example_defs model_defs eval_simps numeral_2_eq_2 [symmetric])

lemma set_facet_values:
  "set (facet_values T d)
     = {l. l \<noteq> [] \<and> l \<noteq> ''__proto__'' \<and> (T = Key_ecosystem \<longrightarrow> l \<in> allowedEcosystems)
           \<and> (\<exists>c\<in>set d. \<exists>ls. project_field T c = Some ls \<and> l \<in> set ls)}"
  "set (facet_values_status TS d)
     = {l. l \<noteq> [] \<and> l \<noteq> ''__proto__'' \<and> (TS = SKey_ecosystem \<longrightarrow> l \<in> allowedEcosystems)
           \<and> (\<exists>c\<in>set d. \<exists>ls. project_field_status TS c = Some ls \<and> l \<in> set ls)}"
  by (auto simp: facet_values_def facet_values_status_def assigned_values_def
      assigned_values_status_def set_admitted)

lemma no_proto_key:
  "''__proto__'' \<notin> set (Object_keys (load_filters d T))"
  "''__proto__'' \<notin> set (Object_keys (fst (load_facets_status d) TS))"
  by (simp_all add: keys_load_filters keys_load_facets_status set_facet_values)

text \<open>
  Claim C4, amended: the color assignment traverses the facet values in the fixed
  dimension order category, then the second dimension (layer, or status), then audience,
  then ecosystem. The facet values of a dimension are the non-empty values of the loaded
  records (for ecosystem, those on the allow-list), a value \<^verbatim>\<open>__proto__\<close> apart, which
  never becomes a key. Within a dimension they come in the key order of its filter
  object: the values that are array-index numerals first, in ascending numeric order, then
  the other values in the order of their first occurrence in the loaded records (so in
  the order of first occurrence throughout when no value is such a numeral). A value gets
  the palette entry at the traversal index of its last occurrence in the traversal, modulo
  the palette size, joined by commas; on an empty palette, the fallback triple.
\<close>

theorem C4_color_assignment:
  assumes "s = load colors d st" and "ks = color_traversal (filters s)"
    and "s' = load_status colors d sst" and "ks' = color_traversal_status (filters s')"
  shows "ks = Object_keys (filters s Key_category) @ Object_keys (filters s Key_layer)
               @ Object_keys (filters s Key_target_audience)
               @ Object_keys (filters s Key_ecosystem)
       \<and> ks' = Object_keys (filters s' SKey_category) @ Object_keys (filters s' SKey_status)
               @ Object_keys (filters s' SKey_target_audience)
               @ Object_keys (filters s' SKey_ecosystem)
       \<and> Object_keys (filters s T) = property_order (facet_values T d)
       \<and> Object_keys (filters s' TS) = property_order (facet_values_status TS d)
       \<and> set (facet_values T d)
           = {l. l \<noteq> [] \<and> l \<noteq> ''__proto__'' \<and> (T = Key_ecosystem \<longrightarrow> l \<in> allowedEcosystems)
                 \<and> (\<exists>c\<in>set d. \<exists>ls. project_field T c = Some ls \<and> l \<in> set ls)}
       \<and> set (facet_values_status TS d)
           = {l. l \<noteq> [] \<and> l \<noteq> ''__proto__''
                 \<and> (TS = SKey_ecosystem \<longrightarrow> l \<in> allowedEcosystems)
                 \<and> (\<exists>c\<in>set d. \<exists>ls. project_field_status TS c = Some ls \<and> l \<in> set ls)}
       \<and> ((\<forall>k\<in>set (facet_values T d). array_index k = None) \<longrightarrow>
            Object_keys (filters s T) = first_occurrences (facet_values T d))
       \<and> ((\<forall>k\<in>set (facet_values_status TS d). array_index k = None) \<longrightarrow>
            Object_keys (filters s' TS) = first_occurrences (facet_values_status TS d))
       \<and> (i < length ks \<longrightarrow> (\<forall>j. i < j \<and> j < length ks \<longrightarrow> ks ! j \<noteq> ks ! i) \<longrightarrow>
            obj_get (colorMap s) (ks ! i) = Some (color_at colors i))
       \<and> (i < length ks' \<longrightarrow> (\<forall>j. i < j \<and> j < length ks' \<longrightarrow> ks' ! j \<noteq> ks' ! i) \<longrightarrow>
            obj_get (colorMap s') (ks' ! i) = Some (color_at colors i))
       \<and> set (Object_keys (colorMap s)) = set ks
       \<and> set (Object_keys (colorMap s')) = set ks'
       \<and> (colors \<noteq> [] \<longrightarrow> color_at colors i = join (colors ! (i mod length colors)) '','')
       \<and> (colors = [] \<longrightarrow> color_at colors i = join [33, 150, 243] '','')"
proof -
  have f: "filters s = load_filters d" and c: "colorMap s = assign_colors colors ks"
    using assms(1,2) by (simp_all add: load_fields)
  have f': "filters s' = fst (load_facets_status d)"
    and c': "colorMap s' = assign_colors colors ks'"
    using assms(3,4) by (simp_all add: load_status_fields)
  have order: "Object_keys (filters s T) = property_order (facet_values T d)"
    by (simp add: f keys_load_filters_order)
  have order': "Object_keys (filters s' TS) = property_order (facet_values_status TS d)"
    by (simp add: f' keys_load_facets_status_order)
  have proto: "''__proto__'' \<notin> set ks"
    by (simp add: assms(2) color_traversal_def f no_proto_key)
  have proto': "''__proto__'' \<notin> set ks'"
    by (simp add: assms(4) color_traversal_status_def f' no_proto_key)
  have col: "i < length ks \<Longrightarrow> \<forall>j. i < j \<and> j < length ks \<longrightarrow> ks ! j \<noteq> ks ! i \<Longrightarrow>
             obj_get (colorMap s) (ks ! i) = Some (color_at colors i)"
    unfolding c using proto by (rule assign_colors_last_occurrence [rotated 2])
  have col': "i < length ks' \<Longrightarrow> \<forall>j. i < j \<and> j < length ks' \<longrightarrow> ks' ! j \<noteq> ks' ! i \<Longrightarrow>
             obj_get (colorMap s') (ks' ! i) = Some (color_at colors i)"
    unfolding c' using proto' by (rule assign_colors_last_occurrence [rotated 2])
  have keys: "set (Object_keys (colorMap s)) = set ks"
    "set (Object_keys (colorMap s')) = set ks'"
    by (simp_all add: c c' set_keys_assign_colors proto proto')
  have plain: "(\<forall>k\<in>set (facet_values T d). array_index k = None) \<longrightarrow>
            Object_keys (filters s T) = first_occurrences (facet_values T d)"
    using order property_order_plain [of "facet_values T d"] by simp
  have plain': "(\<forall>k\<in>set (facet_values_status TS d). array_index k = None) \<longrightarrow>
            Object_keys (filters s' TS) = first_occurrences (facet_values_status TS d)"
    using order' property_order_plain [of "facet_values_status TS d"] by simp
  have trav: "ks = Object_keys (filters s Key_category) @ Object_keys (filters s Key_layer)
               @ Object_keys (filters s Key_target_audience)
               @ Object_keys (filters s Key_ecosystem)"
    "ks' = Object_keys (filters s' SKey_category) @ Object_keys (filters s' SKey_status)
               @ Object_keys (filters s' SKey_target_audience)
               @ Object_keys (filters s' SKey_ecosystem)"
    by (simp_all add: assms(2,4) color_traversal_def color_traversal_status_def)
  have pal: "colors \<noteq> [] \<longrightarrow> color_at colors i = join (colors ! (i mod length colors)) '',''"
    "colors = [] \<longrightarrow> color_at colors i = join [33, 150, 243] '',''"
    by (simp_all add: color_at_def)
  show ?thesis
    using trav order order' set_facet_values(1) [of T d] set_facet_values(2) [of TS d]
      plain plain' col col' keys pal
    by (intro conjI impI) blast+
qed

text \<open>
  Witness for C4: the example dataset; the third traversed value, Layer-3, gets the palette
  entry at index 2, and so does the status Connected to Relay chain in the other variant.
  Of the categories \<^verbatim>\<open>__proto__\<close> and \<^verbatim>\<open>constructor\<close> only the second becomes a key.
\<close>

theorem C4_color_assignment_witness:
  "Object_keys (filters (load example_colors [example_acala, example_moonbeam] initial_state)
      Key_layer) = first_occurrences [''Layer-3'', ''Layer-1'']
   \<and> obj_get (colorMap (load example_colors [example_acala, example_moonbeam] initial_state))
        ''Layer-3'' = Some (color_at example_colors 2)
   \<and> Object_keys (filters
        (load_status example_colors [example_acala, example_moonbeam] initial_state_status)
        SKey_status) = first_occurrences [''Connected to Relay chain'', ''In production'']
   \<and> obj_get (colorMap
        (load_status example_colors [example_acala, example_moonbeam] initial_state_status))
        ''Connected to Relay chain'' = Some (color_at example_colors 2)
   \<and> color_at example_colors 2 = join (example_colors ! (2 mod length example_colors)) '',''
   \<and> category example_odd = Some [''__proto__'', ''constructor'']
   \<and> Object_keys (filters (load example_colors [example_odd] initial_state) Key_category)
       = [''constructor'']
   \<and> counts (load_status example_colors [example_odd] initial_state_status) SKey_category
       = [(''constructor'', Count_text ''constructor'' 1)]"
proof -
  define S where "S = load example_colors [example_acala, example_moonbeam] initial_state"
  define R where
    "R = load_status example_colors [example_acala, example_moonbeam] initial_state_status"
  define ks where "ks = color_traversal (filters S)"
  define ks' where "ks' = color_traversal_status (filters R)"
  have ks: "ks = [''DeFi'', ''EVM'', ''Layer-3'', ''Layer-1'', ''Dev teams'', ''Startup'',
                  ''Polkadot'', ''Moonbeam'']"
    by (simp add: ks_def S_def example_defs model_defs eval_simps)
  have ks': "ks' = [''DeFi'', ''EVM'', ''Connected to Relay chain'', ''In production'',
                    ''Dev teams'', ''Startup'', ''Polkadot'', ''Moonbeam'']"
    by (simp add: ks'_def R_def example_defs model_defs eval_simps)
  have v: "facet_values Key_layer [example_acala, example_moonbeam] = [''Layer-3'', ''Layer-1'']"
    by (simp add: facet_values_def assigned_values_def admitted_def project_field_def
        example_defs)
  have v': "facet_values_status SKey_status [example_acala, example_moonbeam]
              = [''Connected to Relay chain'', ''In production'']"
    by (simp add: facet_values_status_def assigned_values_status_def admitted_def
        project_field_status_def example_defs)
  have plain: "\<forall>k\<in>set (facet_values Key_layer [example_acala, example_moonbeam]).
                 array_index k = None"
    by (simp add: v array_index_def is_digit_def)
  have plain': "\<forall>k\<in>set (facet_values_status SKey_status [example_acala, example_moonbeam]).
                  array_index k = None"
    by (simp add: v' array_index_def is_digit_def)
  have i: "2 < length ks" "2 < length ks'"
    by (simp_all add: ks ks')
  have last: "\<forall>j. 2 < j \<and> j < length ks \<longrightarrow> ks ! j \<noteq> ks ! 2"
    by (simp add: ks nth_Cons' )
  have last': "\<forall>j. 2 < j \<and> j < length ks' \<longrightarrow> ks' ! j \<noteq> ks' ! 2"
    by (simp add: ks' nth_Cons')
  have ne: "example_colors \<noteq> []"
    by (simp add: example_colors_def)
  note c = C4_color_assignment [OF S_def ks_def R_def ks'_def,
      of Key_layer SKey_status 2]
  have "Object_keys (filters S Key_layer)
          = first_occurrences (facet_values Key_layer [example_acala, example_moonbeam])"
    using c plain by blast
  then have "Object_keys (filters S Key_layer) = first_occurrences [''Layer-3'', ''Layer-1'']"
    by (simp only: v)
  moreover have "obj_get (colorMap S) (ks ! 2) = Some (color_at example_colors 2)"
    using c i(1) last by blast
  then have "obj_get (colorMap S) ''Layer-3'' = Some (color_at example_colors 2)"
    by (simp add: ks)
  moreover have "Object_keys (filters R SKey_status)
          = first_occurrences (facet_values_status SKey_status [example_acala, example_moonbeam])"
    using c plain' by blast
  then have "Object_keys (filters R SKey_status)
                   = first_occurrences [''Connected to Relay chain'', ''In production'']"
    by (simp only: v')
  moreover have "obj_get (colorMap R) (ks' ! 2) = Some (color_at example_colors 2)"
    using c i(2) last' by blast
  then have "obj_get (colorMap R) ''Connected to Relay chain''
                   = Some (color_at example_colors 2)"
    by (simp add: ks')
  moreover have "color_at example_colors 2
                   = join (example_colors ! (2 mod length example_colors)) '',''"
    using c ne by blast
  moreover have "category example_odd = Some [''__proto__'', ''constructor'']"
    by (simp add: example_odd_def)
  moreover have "Object_keys (filters (load example_colors [example_odd] initial_state)
                    Key_category) = [''constructor'']"
    by (simp add: example_defs model_defs eval_simps)
  moreover have "counts (load_status example_colors [example_odd] initial_state_status)
                    SKey_category = [(''constructor'', Count_text ''constructor'' 1)]"
    by (simp add: example_defs model_defs eval_simps)
  ultimately show ?thesis
    unfolding S_def R_def by blast
qed

end
